theory Spec2Isabelle
  imports Complex_Main "HOL-Library.Multiset"
begin

section \<open>The comparison script \<open>tst_new_reflection_manager.py\<close>\<close>

text \<open>
  The script builds two crystals on one beam, detector and goniometer, shifts every
  parameter vector by known offsets, simulates observations, puts the original vectors
  back, runs the new and the old reflection manager and target on the observations and
  compares their gradients row by row. Its own code is the control flow between the
  library calls: list comprehensions over parameter vectors, loops that fill the fields
  of reflections, a sort with a permutation column, index expressions and assertions.
  Those are embedded here; what the libraries return is a parameter of the model.
\<close>

subsection \<open>Python values\<close>

text \<open>
  A Python float is a value of a type \<open>'f\<close>, of which nothing is assumed but a linear
  order where the script sorts (no NaN among the sort keys). Arithmetic is not that of the reals: literals and
  operations are taken from a record of operations, so no law of arithmetic is used
  that floating point lacks. \<open>f_lit r\<close> is the float written as the decimal \<open>r\<close>,
  \<open>f_pi\<close> is \<open>math.pi\<close>.
\<close>

record 'f float_ops =
  f_lit :: "real \<Rightarrow> 'f"
  f_pi :: 'f
  f_add :: "'f \<Rightarrow> 'f \<Rightarrow> 'f"
  f_sub :: "'f \<Rightarrow> 'f \<Rightarrow> 'f"
  f_mul :: "'f \<Rightarrow> 'f \<Rightarrow> 'f"
  f_div :: "'f \<Rightarrow> 'f \<Rightarrow> 'f"
  f_pow :: "'f \<Rightarrow> nat \<Rightarrow> 'f"

text \<open>The instance used to evaluate the model on concrete inputs: exact arithmetic.\<close>

definition exact_ops :: "real float_ops" where
  "exact_ops = \<lparr>f_lit = (\<lambda>r. r), f_pi = pi, f_add = (+), f_sub = (-),
     f_mul = (*), f_div = (/), f_pow = (^)\<rparr>"

text \<open>
  How the script can fail: an assertion of its own, an index of its own out of range, or
  a library call that rejects the argument the script built for it.
\<close>

datatype error = AssertionError | IndexError | LibraryError

text \<open>\<open>xs[i]\<close> for an index produced by \<open>range\<close> (never negative).\<close>

definition py_index :: "'a list \<Rightarrow> nat \<Rightarrow> error + 'a" where
  "py_index xs i = (if i < length xs then Inr (xs ! i) else Inl IndexError)"

text \<open>\<open>[a + b for a, b in zip(xs, ys)]\<close>: \<open>zip\<close> stops at the shorter list.\<close>

definition zip_add :: "'f float_ops \<Rightarrow> 'f list \<Rightarrow> 'f list \<Rightarrow> 'f list" where
  "zip_add fp xs ys = map (\<lambda>(a, b). f_add fp a b) (zip xs ys)"

subsection \<open>Parameterisations\<close>

text \<open>
  Modelled from the spec: the classes \<open>DetectorParameterisationSinglePanel\<close>,
  \<open>BeamParameterisationOrientation\<close>, \<open>CrystalOrientationParameterisation\<close> and
  \<open>CrystalUnitCellParameterisation\<close> are not among the sources. The spec describes them
  as wrappers that each hold a reference to a model and expose a numeric parameter vector
  with get and set, where setting the vector changes the model in place, and the vector
  controls the model's degrees of freedom. So a parameterisation holds its vector, the
  state of the model it controls, and the way a vector determines that state.
\<close>

record ('f, 'm) parameterisation =
  param_vals :: "'f list"
  model :: 'm
  compose :: "'f list \<Rightarrow> 'm"

definition get_param_vals :: "('f, 'm) parameterisation \<Rightarrow> 'f list" where
  "get_param_vals p = param_vals p"

definition set_param_vals :: "'f list \<Rightarrow> ('f, 'm) parameterisation \<Rightarrow> ('f, 'm) parameterisation" where
  "set_param_vals vals p = p\<lparr>param_vals := vals, model := compose p vals\<rparr>"

text \<open>A parameterisation whose model is in the state its vector determines.\<close>

definition composed :: "('f, 'm) parameterisation \<Rightarrow> bool" where
  "composed p = (model p = compose p (param_vals p))"

text \<open>
  The six parameterisations of the script (lines 114 to 125), as they are after the beam
  has been fixed to the X-Z plane (line 128).
\<close>

record ('f, 'm) params =
  det_param :: "('f, 'm) parameterisation"
  s0_param :: "('f, 'm) parameterisation"
  xl1o_param :: "('f, 'm) parameterisation"
  xl1uc_param :: "('f, 'm) parameterisation"
  xl2o_param :: "('f, 'm) parameterisation"
  xl2uc_param :: "('f, 'm) parameterisation"

text \<open>The vectors the script keeps for the restore (lines 135, 141, 147, 156).\<close>

record 'f saved =
  det_p_vals :: "'f list"
  s0_p_vals :: "'f list"
  xlo_p_vals :: "'f list list"
  xluc_p_vals :: "'f list list"

subsection \<open>Reflections and matches\<close>

text \<open>
  Modelled from the spec: the reflection class is not among the sources; the spec lists a
  reflection as an observation record with predicted and observed centroid, variance,
  frame number and crystal id. The record has the fields the script reads or writes
  (lines 214 to 239).
\<close>

record 'f reflection =
  rotation_angle :: 'f
  image_coord_mm :: "'f \<times> 'f"
  centroid_position :: "'f \<times> 'f \<times> 'f"
  centroid_variance :: "'f \<times> 'f \<times> 'f"
  frame_number :: 'f
  crystal :: int

text \<open>
  A row of the table of matches of the new reflection manager, with the columns the
  script reads (\<open>'miller_index'\<close>, \<open>'x_resid'\<close>) and the column \<open>'order'\<close> it adds at
  line 308; the value of \<open>order\<close> before that line is never read.
\<close>

record ('f, 'h) match_row =
  miller_index :: 'h
  x_resid :: 'f
  order :: nat

text \<open>
  A match of the old reflection manager: an object with the attributes the script reads
  (lines 346 to 361). \<open>gradients[j]\<close> is the triple of the derivatives of X, Y and Phi
  with respect to parameter \<open>j\<close>.
\<close>

record ('f, 'h) old_match =
  old_miller_index :: 'h
  old_x_resid :: 'f
  gradients :: "('f \<times> 'f \<times> 'f) list"

type_synonym 'f grads = "'f list list \<times> 'f list list \<times> 'f list list"

subsection \<open>The library\<close>

text \<open>
  Everything the script obtains from library code is a field of this record. A model (beam,
  detector, crystal orientation, crystal cell) is a value of type \<open>'m\<close>, read from the
  parameterisation that controls it; a row of a reflection table is a value of type \<open>'r\<close>.
  \<^item> \<open>approx_equal\<close>: \<open>libtbx.test_utils.approx_equal\<close> on two floats.
  \<^item> \<open>get_oscillation_range\<close>, \<open>get_oscillation\<close>: what the scan built at line 88 returns
    at lines 93 and 94 (in radians).
  \<^item> \<open>n_detectors\<close>: \<open>len(experiments.detectors())\<close> at line 108.
  \<^item> \<open>cell_of\<close>, \<open>indep_of\<close>: lines 160 to 167, the cell parameters of a crystal and the
    independent parameters of a cell under the crystal's space group.
  \<^item> \<open>predict\<close>: lines 182 to 196, index generation and ray prediction for one experiment
    on the models as they are.
  \<^item> \<open>get_pixel_size\<close>, \<open>ray_intersection\<close>: lines 203, 208 and 209, on the detector.
  \<^item> \<open>get_image_index_from_angle\<close>: the scan's image index of an angle in radians.
  \<^item> \<open>to_table\<close>: line 262.
  \<^item> \<open>new_refman\<close>, \<open>new_target\<close>, \<open>new_predict\<close>, \<open>new_finalise\<close>,
    \<open>new_gradients\<close>: what the constructor of the new reflection manager (line 267), the
    constructor of the new target (line 291), \<open>new_target.predict()\<close> (line 295),
    \<open>refman.finalise()\<close> (line 298) and \<open>new_target.calculate_gradients()\<close> (line 303)
    do to the table the reflection manager was given a reference to.
  \<^item> \<open>get_matches\<close>, \<open>calculate_gradients\<close>: the matches and the three gradient lists of
    the new classes, read off that table and the models.
  \<^item> \<open>old_get_matches\<close>: the matches of the old classes (lines 327 to 335), read off the
    table the old reflection manager was given and the models.
  Library calls are taken to return; output they print themselves is not modelled.
\<close>

record ('f, 'h, 'm, 'r) lib =
  approx_equal :: "'f \<Rightarrow> 'f \<Rightarrow> bool"
  get_oscillation_range :: "'f \<times> 'f"
  get_oscillation :: "'f \<times> 'f"
  n_detectors :: nat
  cell_of :: "'m \<Rightarrow> 'f list"
  indep_of :: "'m \<Rightarrow> 'f list \<Rightarrow> 'f list"
  predict :: "('f, 'm) params \<Rightarrow> nat \<Rightarrow> 'f reflection list"
  get_pixel_size :: "'m \<Rightarrow> 'f \<times> 'f"
  ray_intersection :: "'m \<Rightarrow> 'f reflection list \<Rightarrow> 'f reflection list"
  get_image_index_from_angle :: "'f \<Rightarrow> 'f"
  to_table :: "'f reflection list \<Rightarrow> 'r list"
  new_refman :: "('f, 'm) params \<Rightarrow> 'r list \<Rightarrow> 'r list"
  new_target :: "('f, 'm) params \<Rightarrow> 'r list \<Rightarrow> 'r list"
  new_predict :: "('f, 'm) params \<Rightarrow> 'r list \<Rightarrow> 'r list"
  new_finalise :: "('f, 'm) params \<Rightarrow> 'r list \<Rightarrow> 'r list"
  new_gradients :: "('f, 'm) params \<Rightarrow> 'r list \<Rightarrow> 'r list"
  get_matches :: "('f, 'm) params \<Rightarrow> 'r list \<Rightarrow> ('f, 'h) match_row list"
  calculate_gradients :: "('f, 'm) params \<Rightarrow> 'r list \<Rightarrow> 'f grads"
  old_get_matches :: "('f, 'm) params \<Rightarrow> 'r list \<Rightarrow> ('f, 'h) old_match list"

subsection \<open>Applying the known parameter shifts (lines 134 to 168)\<close>

text \<open>Line 136: the detector offsets, 2.0 mm each translation and 5 mrad each rotation.\<close>

definition det_offsets :: "'f float_ops \<Rightarrow> 'f list" where
  "det_offsets fp = map (f_lit fp) [2.0, 2.0, 2.0, 5, 5, 5]"

definition shift_det :: "'f float_ops \<Rightarrow> 'f list \<Rightarrow> 'f list" where
  "shift_det fp vals = zip_add fp vals (det_offsets fp)"

text \<open>
  Lines 142 and 143: \<open>p_vals = list(s0_p_vals); p_vals[0] += 2.\<close> The copy leaves
  \<open>s0_p_vals\<close> as it was; on an empty vector the index raises.
\<close>

definition shift_s0 :: "'f float_ops \<Rightarrow> 'f list \<Rightarrow> error + 'f list" where
  "shift_s0 fp vals =
     (case py_index vals 0 of
        Inl e \<Rightarrow> Inl e
      | Inr v \<Rightarrow> Inr (vals[0 := f_add fp v (f_lit fp 2)]))"

text \<open>Line 151: the crystal orientation offsets.\<close>

definition xlo_offsets :: "'f float_ops \<Rightarrow> 'f list" where
  "xlo_offsets fp = map (f_lit fp) [2, 2, 2]"

definition shift_xlo :: "'f float_ops \<Rightarrow> 'f list \<Rightarrow> 'f list" where
  "shift_xlo fp vals = zip_add fp vals (xlo_offsets fp)"

text \<open>
  Lines 160 to 167: the cell parameters are shifted by 0.1 Angstrom in the lengths and 0.1
  degree in gamma; the symmetry library turns the new cell into independent parameters
  (\<open>indep\<close>, taken as given), which the script scales by \<open>1.e5\<close>.
\<close>

definition cell_offsets :: "'f float_ops \<Rightarrow> 'f list" where
  "cell_offsets fp = map (f_lit fp) [0.1, 0.1, 0.1, 0.0, 0.0, 0.1]"

definition shift_xluc :: "'f float_ops \<Rightarrow> ('f list \<Rightarrow> 'f list) \<Rightarrow> 'f list \<Rightarrow> 'f list" where
  "shift_xluc fp indep cell_params =
     map (\<lambda>e. f_mul fp e (f_lit fp 100000)) (indep (zip_add fp cell_params (cell_offsets fp)))"

definition apply_shifts ::
  "'f float_ops \<Rightarrow> ('f, 'h, 'm, 'r) lib \<Rightarrow> ('f, 'm) params \<Rightarrow> error + ('f saved \<times> ('f, 'm) params)" where
  "apply_shifts fp cl ps =
     (let det_vals = get_param_vals (det_param ps);
          ps = ps\<lparr>det_param := set_param_vals (shift_det fp det_vals) (det_param ps)\<rparr>;
          s0_vals = get_param_vals (s0_param ps)
      in case shift_s0 fp s0_vals of
           Inl e \<Rightarrow> Inl e
         | Inr p_vals \<Rightarrow>
            (let ps = ps\<lparr>s0_param := set_param_vals p_vals (s0_param ps)\<rparr>;
                 xlo = [];
                 v1 = get_param_vals (xl1o_param ps);
                 xlo = xlo @ [v1];
                 ps = ps\<lparr>xl1o_param := set_param_vals (shift_xlo fp v1) (xl1o_param ps)\<rparr>;
                 v2 = get_param_vals (xl2o_param ps);
                 xlo = xlo @ [v2];
                 ps = ps\<lparr>xl2o_param := set_param_vals (shift_xlo fp v2) (xl2o_param ps)\<rparr>;
                 xluc = [];
                 u1 = get_param_vals (xl1uc_param ps);
                 xluc = xluc @ [u1];
                 X1 = shift_xluc fp (indep_of cl (model (xl1uc_param ps)))
                        (cell_of cl (model (xl1uc_param ps)));
                 ps = ps\<lparr>xl1uc_param := set_param_vals X1 (xl1uc_param ps)\<rparr>;
                 u2 = get_param_vals (xl2uc_param ps);
                 xluc = xluc @ [u2];
                 X2 = shift_xluc fp (indep_of cl (model (xl2uc_param ps)))
                        (cell_of cl (model (xl2uc_param ps)));
                 ps = ps\<lparr>xl2uc_param := set_param_vals X2 (xl2uc_param ps)\<rparr>
             in Inr (\<lparr>det_p_vals = det_vals, s0_p_vals = s0_vals,
                       xlo_p_vals = xlo, xluc_p_vals = xluc\<rparr>, ps)))"

subsection \<open>Undoing the shifts (lines 251 to 256)\<close>

definition undo_shifts :: "'f saved \<Rightarrow> ('f, 'm) params \<Rightarrow> error + ('f, 'm) params" where
  "undo_shifts sv ps =
     (let ps = ps\<lparr>s0_param := set_param_vals (s0_p_vals sv) (s0_param ps)\<rparr>;
          ps = ps\<lparr>det_param := set_param_vals (det_p_vals sv) (det_param ps)\<rparr>
      in case py_index (xlo_p_vals sv) 0 of Inl e \<Rightarrow> Inl e | Inr o1 \<Rightarrow>
        (let ps = ps\<lparr>xl1o_param := set_param_vals o1 (xl1o_param ps)\<rparr>
         in case py_index (xlo_p_vals sv) 1 of Inl e \<Rightarrow> Inl e | Inr o2 \<Rightarrow>
           (let ps = ps\<lparr>xl2o_param := set_param_vals o2 (xl2o_param ps)\<rparr>
            in case py_index (xluc_p_vals sv) 0 of Inl e \<Rightarrow> Inl e | Inr c1 \<Rightarrow>
              (let ps = ps\<lparr>xl1uc_param := set_param_vals c1 (xl1uc_param ps)\<rparr>
               in case py_index (xluc_p_vals sv) 1 of Inl e \<Rightarrow> Inl e | Inr c2 \<Rightarrow>
                 Inr (ps\<lparr>xl2uc_param := set_param_vals c2 (xl2uc_param ps)\<rparr>)))))"

subsection \<open>The sweep and detector checks (lines 93 to 108)\<close>

text \<open>
  Line 96 compares the tuple with \<open>(0., pi)\<close>, line 97 the width of one image with 0.1
  degree in radians, line 108 counts the detectors of the experiment list.
\<close>

definition check_scan :: "'f float_ops \<Rightarrow> ('f, 'h, 'm, 'r) lib \<Rightarrow> error + unit" where
  "check_scan fp lb =
     (let sweep_range = get_oscillation_range lb;
          temp = get_oscillation lb;
          im_width = f_sub fp (snd temp) (fst temp)
      in if sweep_range \<noteq> (f_lit fp 0, f_pi fp) then Inl AssertionError
         else if \<not> approx_equal lb im_width
                    (f_div fp (f_mul fp (f_lit fp 0.1) (f_pi fp)) (f_lit fp 180))
           then Inl AssertionError
         else if n_detectors lb \<noteq> 1 then Inl AssertionError
         else Inr ())"

subsection \<open>Generating the observations (lines 174 to 245)\<close>

text \<open>
  What the script prints, line by line: a text, a beam or detector, a crystal (its
  orientation and its cell), a text with a number, and the row of line 349.
\<close>

datatype ('f, 'h, 'm) line =
    Text string
  | Model 'm
  | Crystal 'm 'm
  | Count string nat
  | Row 'h 'f 'f 'f 'h "'f \<times> 'f \<times> 'f"

text \<open>Lines 202 to 206: the variances invented for the centroids.\<close>

definition variances :: "'f float_ops \<Rightarrow> 'f \<times> 'f \<Rightarrow> 'f \<times> 'f \<times> 'f" where
  "variances fp px_size =
     (let im_width = f_div fp (f_mul fp (f_lit fp 0.1) (f_pi fp)) (f_lit fp 180);
          var_x = f_pow fp (f_div fp (fst px_size) (f_lit fp 2)) 2;
          var_y = f_pow fp (f_div fp (snd px_size) (f_lit fp 2)) 2;
          var_phi = f_pow fp (f_div fp im_width (f_lit fp 2)) 2
      in (var_x, var_y, var_phi))"

text \<open>
  The body of the loop at line 211 and of the loop at line 226, which differ in the
  crystal number only. \<open>image_coord_mm + (rotation_angle, )\<close> appends the angle to the
  pair of coordinates.
\<close>

definition observe1 ::
  "('f, 'h, 'm, 'r) lib \<Rightarrow> 'f \<times> 'f \<times> 'f \<Rightarrow> 'f reflection \<Rightarrow> 'f reflection" where
  "observe1 lb var ref =
     ref\<lparr>centroid_position :=
           (fst (image_coord_mm ref), snd (image_coord_mm ref), rotation_angle ref),
         centroid_variance := var,
         frame_number := get_image_index_from_angle lb (rotation_angle ref),
         crystal := 0\<rparr>"

definition observe2 ::
  "('f, 'h, 'm, 'r) lib \<Rightarrow> 'f \<times> 'f \<times> 'f \<Rightarrow> 'f reflection \<Rightarrow> 'f reflection" where
  "observe2 lb var ref =
     ref\<lparr>centroid_position :=
           (fst (image_coord_mm ref), snd (image_coord_mm ref), rotation_angle ref),
         centroid_variance := var,
         frame_number := get_image_index_from_angle lb (rotation_angle ref),
         crystal := 1\<rparr>"

text \<open>
  \<open>obs_refs1\<close> and \<open>obs_refs2\<close> as they are at line 241: predicted on the shifted models,
  intersected with the detector, every reflection filled in by its loop.
\<close>

definition obs_refs1 ::
  "'f float_ops \<Rightarrow> ('f, 'h, 'm, 'r) lib \<Rightarrow> ('f, 'm) params \<Rightarrow> 'f reflection list" where
  "obs_refs1 fp lb ps =
     (let var = variances fp (get_pixel_size lb (model (det_param ps)))
      in map (observe1 lb var) (ray_intersection lb (model (det_param ps)) (predict lb ps 0)))"

definition obs_refs2 ::
  "'f float_ops \<Rightarrow> ('f, 'h, 'm, 'r) lib \<Rightarrow> ('f, 'm) params \<Rightarrow> 'f reflection list" where
  "obs_refs2 fp lb ps =
     (let var = variances fp (get_pixel_size lb (model (det_param ps)))
      in map (observe2 lb var) (ray_intersection lb (model (det_param ps)) (predict lb ps 1)))"

text \<open>
  Modelled from the spec: \<open>concatenate\<close> of the reflection list is not among the sources;
  the spec has a reflection table as an ordered collection that is concatenated across
  crystals: the records of the first list, then those of the second.
\<close>

definition concatenate :: "'a list \<Rightarrow> 'a list \<Rightarrow> 'a list" where
  "concatenate xs ys = xs @ ys"

definition obs_refs ::
  "'f float_ops \<Rightarrow> ('f, 'h, 'm, 'r) lib \<Rightarrow> ('f, 'm) params \<Rightarrow> 'f reflection list" where
  "obs_refs fp lb ps = concatenate (obs_refs1 fp lb ps) (obs_refs2 fp lb ps)"

text \<open>The lines printed between line 174 and line 242.\<close>

definition generate_output ::
  "'f float_ops \<Rightarrow> ('f, 'h, 'm, 'r) lib \<Rightarrow> ('f, 'm) params \<Rightarrow> ('f, 'h, 'm) line list" where
  "generate_output fp lb ps =
     [Text ''Reflections will be generated with the following geometry:'',
      Model (model (s0_param ps)),
      Model (model (det_param ps)),
      Crystal (model (xl1o_param ps)) (model (xl1uc_param ps)),
      Crystal (model (xl2o_param ps)) (model (xl2uc_param ps)),
      Count ''Total number of reflections excited for crystal1'' (length (predict lb ps 0)),
      Count ''Total number of reflections excited for crystal2'' (length (predict lb ps 1)),
      Count ''Total number of observations made for crystal1'' (length (obs_refs1 fp lb ps)),
      Count ''Total number of observations made for crystal2'' (length (obs_refs2 fp lb ps))]"

subsection \<open>The two pipelines (lines 262 to 336)\<close>

text \<open>
  The new reflection manager is given the table \<open>reflections\<close> itself and works on it; the
  old one is given \<open>old_reflections\<close>. Which object a name refers to matters here, so
  tables live in a store: an address is a position in the list of allocated tables.
\<close>

type_synonym 'r store = "'r list list"

definition alloc :: "'r list \<Rightarrow> 'r store \<Rightarrow> nat \<times> 'r store" where
  "alloc t h = (length h, h @ [t])"

text \<open>\<open>deepcopy(x)\<close>: a new table with the rows of the table at \<open>a\<close>.\<close>

definition deepcopy :: "nat \<Rightarrow> 'r store \<Rightarrow> nat \<times> 'r store" where
  "deepcopy a h = alloc (h ! a) h"

text \<open>A library call that was handed the table at \<open>a\<close> and changes it in place.\<close>

definition in_place :: "('r list \<Rightarrow> 'r list) \<Rightarrow> nat \<Rightarrow> 'r store \<Rightarrow> 'r store" where
  "in_place f a h = h[a := f (h ! a)]"

text \<open>
  Lines 262 to 303: the store and the two addresses after the new classes have run, with
  the number printed at line 300.
\<close>

definition new_pipeline ::
  "('f, 'h, 'm, 'r) lib \<Rightarrow> ('f, 'm) params \<Rightarrow> 'f reflection list \<Rightarrow>
     nat \<times> nat \<times> nat \<times> 'f grads \<times> 'r store" where
  "new_pipeline lb ps refs =
     (let (reflections, h) = alloc (to_table lb refs) [];
          (old_reflections, h) = deepcopy reflections h;
          h = in_place (new_refman lb ps) reflections h;
          h = in_place (new_target lb ps) reflections h;
          h = in_place (new_predict lb ps) reflections h;
          h = in_place (new_finalise lb ps) reflections h;
          n_new = length (get_matches lb ps (h ! reflections));
          g = calculate_gradients lb ps (h ! reflections);
          h = in_place (new_gradients lb ps) reflections h
      in (reflections, old_reflections, n_new, g, h))"

text \<open>What the comparison is run on: the values of lines 300, 303, 306 and 335.\<close>

record ('f, 'h) results =
  n_new_printed :: nat
  new_matches :: "('f, 'h) match_row list"
  new_grads :: "'f grads"
  old_matches :: "('f, 'h) old_match list"

definition run_pipelines ::
  "('f, 'h, 'm, 'r) lib \<Rightarrow> ('f, 'm) params \<Rightarrow> 'f reflection list \<Rightarrow> ('f, 'h) results" where
  "run_pipelines lb ps refs =
     (let (reflections, old_reflections, n_new, g, h) = new_pipeline lb ps refs
      in \<lparr>n_new_printed = n_new,
          new_matches = get_matches lb ps (h ! reflections),
          new_grads = g,
          old_matches = old_get_matches lb ps (h ! old_reflections)\<rparr>)"

subsection \<open>Sorting both sets of matches (lines 305 to 346)\<close>

text \<open>Sequencing of steps that can raise: the first failure ends the run.\<close>

definition and_then :: "error + 'a \<Rightarrow> ('a \<Rightarrow> error + 'b) \<Rightarrow> error + 'b" where
  "and_then m f = (case m of Inl e \<Rightarrow> Inl e | Inr x \<Rightarrow> f x)"

text \<open>Line 308: \<open>new_matches['order'] = flex.size_t_range(len(new_matches))\<close>.\<close>

definition assign_order :: "('f, 'h) match_row list \<Rightarrow> ('f, 'h) match_row list" where
  "assign_order rows = map (\<lambda>(r, k). r\<lparr>order := k\<rparr>) (zip rows [0..<length rows])"

text \<open>
  Lines 309 to 311 read \<open>dX_dp[0]\<close>, \<open>dY_dp[0]\<close> and \<open>dPhi_dp[0]\<close> and store them as
  further columns, which are not read again: the model keeps the three index expressions.
\<close>

definition first_gradients :: "'f grads \<Rightarrow> error + unit" where
  "first_gradients g =
     (case g of (dX_dp, dY_dp, dPhi_dp) \<Rightarrow>
        and_then (py_index dX_dp 0) (\<lambda>_.
        and_then (py_index dY_dp 0) (\<lambda>_.
        and_then (py_index dPhi_dp 0) (\<lambda>_. Inr ()))))"

text \<open>
  Modelled from the spec: \<open>sort\<close> of the reflection table and \<open>select\<close> of a flex array
  are not among the sources. The spec has the two result sets sorted by a common key
  before they are compared: \<open>sort\<close> puts the rows in ascending order of the key column;
  \<open>select\<close> returns the elements of an array at the given positions, in the order given,
  and rejects a position beyond the array.
\<close>

definition sort_table :: "('f::linorder, 'h) match_row list \<Rightarrow> ('f, 'h) match_row list" where
  "sort_table rows = sort_key x_resid rows"

definition select :: "'a list \<Rightarrow> nat list \<Rightarrow> error + 'a list" where
  "select xs ks = (if list_all (\<lambda>k. k < length xs) ks then Inr (map (\<lambda>k. xs ! k) ks)
                   else Inl LibraryError)"

text \<open>Line 346: \<open>sorted(old_matches, key=lambda e: e.x_resid)\<close>.\<close>

definition sort_old :: "('f::linorder, 'h) old_match list \<Rightarrow> ('f, 'h) old_match list" where
  "sort_old ms = sort_key old_x_resid ms"

text \<open>
  Lines 342 to 345, the loop over \<open>range(len(dX_dp))\<close>: element \<open>i\<close> of each of the three
  lists is replaced by its selection.
\<close>

fun select_gradients :: "nat list \<Rightarrow> nat list \<Rightarrow> 'f grads \<Rightarrow> error + 'f grads" where
  "select_gradients [] ord g = Inr g"
| "select_gradients (i # is) ord (dX_dp, dY_dp, dPhi_dp) =
     and_then (py_index dX_dp i) (\<lambda>x.
     and_then (select x ord) (\<lambda>x'.
     and_then (py_index dY_dp i) (\<lambda>y.
     and_then (select y ord) (\<lambda>y'.
     and_then (py_index dPhi_dp i) (\<lambda>p.
     and_then (select p ord) (\<lambda>p'.
       select_gradients is ord (dX_dp[i := x'], dY_dp[i := y'], dPhi_dp[i := p'])))))))"

text \<open>
  What that loop leaves in one of the three lists when it runs through: the arrays at the
  positions \<open>is\<close> replaced by their selections, the others untouched.
\<close>

definition selected :: "nat list \<Rightarrow> nat list \<Rightarrow> 'f list list \<Rightarrow> 'f list list" where
  "selected is ord A =
     map (\<lambda>i. if i \<in> set is then map (\<lambda>k. A ! i ! k) ord else A ! i) [0..<length A]"

subsection \<open>Printing ten rows and testing all gradients (lines 348 to 364)\<close>

text \<open>Line 349, for one \<open>i\<close>.\<close>

definition print_row ::
  "('f, 'h) match_row list \<Rightarrow> 'f grads \<Rightarrow> ('f, 'h) old_match list \<Rightarrow> nat \<Rightarrow>
     error + ('f, 'h, 'm) line" where
  "print_row nm g om i =
     (case g of (dX_dp, dY_dp, dPhi_dp) \<Rightarrow>
        and_then (py_index nm i) (\<lambda>r.
        and_then (py_index dX_dp 0) (\<lambda>x0. and_then (py_index x0 i) (\<lambda>x.
        and_then (py_index dY_dp 0) (\<lambda>y0. and_then (py_index y0 i) (\<lambda>y.
        and_then (py_index dPhi_dp 0) (\<lambda>p0. and_then (py_index p0 i) (\<lambda>p.
        and_then (py_index om i) (\<lambda>m.
        and_then (py_index om i) (\<lambda>m'. and_then (py_index (gradients m') 0) (\<lambda>gr.
          Inr (Row (miller_index r) x y p (old_miller_index m) gr))))))))))))"

text \<open>A \<open>for\<close> loop over the given indices whose body yields a printed line.\<close>

fun for_lines :: "nat list \<Rightarrow> (nat \<Rightarrow> error + 'a) \<Rightarrow> error + 'a list" where
  "for_lines [] body = Inr []"
| "for_lines (i # is) body =
     and_then (body i) (\<lambda>l. and_then (for_lines is body) (\<lambda>ls. Inr (l # ls)))"

text \<open>A \<open>for\<close> loop over the given indices whose body only checks.\<close>

fun for_each :: "nat list \<Rightarrow> (nat \<Rightarrow> error + unit) \<Rightarrow> error + unit" where
  "for_each [] body = Inr ()"
| "for_each (i # is) body = and_then (body i) (\<lambda>_. for_each is body)"

text \<open>\<open>assert approx_equal(a, b)\<close>.\<close>

definition assert_approx :: "('f, 'h, 'm, 'r) lib \<Rightarrow> 'f \<Rightarrow> 'f \<Rightarrow> error + unit" where
  "assert_approx lb a b = (if approx_equal lb a b then Inr () else Inl AssertionError)"

text \<open>Lines 359 to 361, for one \<open>i\<close> and one \<open>j\<close>.\<close>

definition test_gradient ::
  "('f, 'h, 'm, 'r) lib \<Rightarrow> 'f grads \<Rightarrow> ('f, 'h) old_match list \<Rightarrow> nat \<Rightarrow> nat \<Rightarrow> error + unit" where
  "test_gradient lb g om i j =
     (case g of (dX_dp, dY_dp, dPhi_dp) \<Rightarrow>
        and_then (py_index dX_dp j) (\<lambda>xj. and_then (py_index xj i) (\<lambda>x.
        and_then (py_index om i) (\<lambda>m. and_then (py_index (gradients m) j) (\<lambda>gr.
        and_then (assert_approx lb x (fst gr)) (\<lambda>_.
        and_then (py_index dY_dp j) (\<lambda>yj. and_then (py_index yj i) (\<lambda>y.
        and_then (py_index om i) (\<lambda>m. and_then (py_index (gradients m) j) (\<lambda>gr.
        and_then (assert_approx lb y (fst (snd gr))) (\<lambda>_.
        and_then (py_index dPhi_dp j) (\<lambda>pj. and_then (py_index pj i) (\<lambda>p.
        and_then (py_index om i) (\<lambda>m. and_then (py_index (gradients m) j) (\<lambda>gr.
        assert_approx lb p (snd (snd gr)))))))))))))))))"

text \<open>Lines 355 to 361: the two nested loops.\<close>

definition test_gradients ::
  "('f, 'h, 'm, 'r) lib \<Rightarrow> ('f, 'h) match_row list \<Rightarrow> 'f grads \<Rightarrow> ('f, 'h) old_match list \<Rightarrow>
     error + unit" where
  "test_gradients lb nm g om =
     for_each [0..<length nm] (\<lambda>i.
       for_each [0..<length (fst g)] (\<lambda>j. test_gradient lb g om i j))"

text \<open>
  Lines 340 to 346: the table of new matches (with its order column) sorted, the three
  lists of gradient arrays selected by the sorted order column, the old matches sorted.
\<close>

definition sort_both ::
  "('f::linorder, 'h) results \<Rightarrow>
     error + (('f, 'h) match_row list \<times> 'f grads \<times> ('f, 'h) old_match list)" where
  "sort_both res =
     (let nm = sort_table (assign_order (new_matches res))
      in and_then (select_gradients [0..<length (fst (new_grads res))] (map order nm)
                     (new_grads res)) (\<lambda>g.
           Inr (nm, g, sort_old (old_matches res))))"

text \<open>
  Lines 300 to 364 on the values the two pipelines returned: the counts are printed, the
  new matches get their order column, both sets are sorted, the gradient arrays are
  selected, ten rows are printed, every gradient is tested, and \<open>OK\<close> is printed.
\<close>

definition compare ::
  "('f::linorder, 'h, 'm, 'r) lib \<Rightarrow> ('f, 'h) results \<Rightarrow> error + ('f, 'h, 'm) line list" where
  "compare lb res =
     (let out1 = [Count ''number of matches from new relfeciotn manager'' (n_new_printed res)];
          out2 = [Count ''number of matches from old relfeciotn manager''
                    (length (old_matches res))]
      in and_then (first_gradients (new_grads res)) (\<lambda>_.
         and_then (sort_both res) (\<lambda>(nm, g, om).
         and_then (for_lines [0..<10] (print_row nm g om)) (\<lambda>rows.
         and_then (test_gradients lb nm g om) (\<lambda>_.
           Inr (out1 @ [Text ''OLD CLASSES'',
                         Text ''BUILDING OLD STYLE REFLECTION MANAGER'',
                         Text ''OLD STYLE PREDICTION AND GRAD CALC'']
                  @ out2 @ rows @ [Text ''TESTING GRADIENTS'', Text ''OK'']))))))"

subsection \<open>The script\<close>

text \<open>
  Lines 87 to 364 in sequence. A run either fails with the first error, or returns the
  lines printed, the last of which is \<open>OK\<close>. The interactive console opened at line 365
  comes after that and is not part of the model.
\<close>

definition script ::
  "'f::linorder float_ops \<Rightarrow> ('f, 'h, 'm, 'r) lib \<Rightarrow> ('f, 'm) params \<Rightarrow>
     error + ('f, 'h, 'm) line list" where
  "script fp lb ps =
     and_then (check_scan fp lb) (\<lambda>_.
     and_then (apply_shifts fp lb ps) (\<lambda>(sv, ps1).
     let out = generate_output fp lb ps1;
         refs = obs_refs fp lb ps1
     in and_then (undo_shifts sv ps1) (\<lambda>ps2.
        and_then (compare lb (run_pipelines lb ps2 refs)) (\<lambda>out'.
          Inr (out @ [Text ''NEW CLASSES''] @ out')))))"

subsection \<open>The conditions the script checks\<close>

text \<open>Lines 96 and 97.\<close>

definition sweep_checks :: "'f float_ops \<Rightarrow> ('f, 'h, 'm, 'r) lib \<Rightarrow> bool" where
  "sweep_checks fp lb =
     (get_oscillation_range lb = (f_lit fp 0, f_pi fp) \<and>
      approx_equal lb (f_sub fp (snd (get_oscillation lb)) (fst (get_oscillation lb)))
        (f_div fp (f_mul fp (f_lit fp 0.1) (f_pi fp)) (f_lit fp 180)))"

text \<open>Line 108.\<close>

definition detector_check :: "('f, 'h, 'm, 'r) lib \<Rightarrow> bool" where
  "detector_check lb = (n_detectors lb = 1)"

text \<open>Lines 359 to 361: the three comparisons for row \<open>i\<close> and parameter \<open>j\<close>.\<close>

definition agree_at ::
  "('f, 'h, 'm, 'r) lib \<Rightarrow> 'f grads \<Rightarrow> ('f, 'h) old_match list \<Rightarrow> nat \<Rightarrow> nat \<Rightarrow> bool" where
  "agree_at lb g om i j =
     (case g of (dX_dp, dY_dp, dPhi_dp) \<Rightarrow>
        approx_equal lb (dX_dp ! j ! i) (fst (gradients (om ! i) ! j)) \<and>
        approx_equal lb (dY_dp ! j ! i) (fst (snd (gradients (om ! i) ! j))) \<and>
        approx_equal lb (dPhi_dp ! j ! i) (snd (snd (gradients (om ! i) ! j))))"

definition gradients_agree ::
  "('f, 'h, 'm, 'r) lib \<Rightarrow> ('f, 'h) match_row list \<Rightarrow> 'f grads \<Rightarrow> ('f, 'h) old_match list \<Rightarrow> bool" where
  "gradients_agree lb nm g om =
     list_all (\<lambda>i. list_all (\<lambda>j. agree_at lb g om i j) [0..<length (fst g)]) [0..<length nm]"

text \<open>The values the comparison is run on, on the path the script takes to them.\<close>

definition script_results ::
  "'f float_ops \<Rightarrow> ('f, 'h, 'm, 'r) lib \<Rightarrow> ('f, 'm) params \<Rightarrow> error + ('f, 'h) results" where
  "script_results fp lb ps =
     and_then (apply_shifts fp lb ps) (\<lambda>(sv, ps1).
     and_then (undo_shifts sv ps1) (\<lambda>ps2.
       Inr (run_pipelines lb ps2 (obs_refs fp lb ps1))))"

text \<open>Every gradient comparison holds on the sorted values, where sorting gets that far.\<close>

definition gradient_checks :: "('f::linorder, 'h, 'm, 'r) lib \<Rightarrow> ('f, 'h) results \<Rightarrow> bool" where
  "gradient_checks lb res =
     (case sort_both res of Inl e \<Rightarrow> True | Inr (nm, g, om) \<Rightarrow> gradients_agree lb nm g om)"

text \<open>Every condition that an \<open>assert\<close> of the script tests is true.\<close>

definition all_checks_hold ::
  "'f::linorder float_ops \<Rightarrow> ('f, 'h, 'm, 'r) lib \<Rightarrow> ('f, 'm) params \<Rightarrow> bool" where
  "all_checks_hold fp lb ps =
     (sweep_checks fp lb \<and> detector_check lb \<and>
      (case script_results fp lb ps of Inl e \<Rightarrow> True | Inr res \<Rightarrow> gradient_checks lb res))"

text \<open>
  Every index expression of lines 300 to 364 is in range: there is a parameter; the
  lists \<open>dY_dp\<close> and \<open>dPhi_dp\<close> are as long as \<open>dX_dp\<close>; every gradient array has an entry
  for every new match; there are ten new matches; there are as many old matches as new
  ones; every old match has a gradient for every parameter.
\<close>

definition indices_ok :: "('f, 'h) results \<Rightarrow> bool" where
  "indices_ok res =
     (case new_grads res of (dX_dp, dY_dp, dPhi_dp) \<Rightarrow>
        dX_dp \<noteq> [] \<and> length dX_dp \<le> length dY_dp \<and> length dX_dp \<le> length dPhi_dp \<and>
        list_all (\<lambda>j. length (new_matches res) \<le> length (dX_dp ! j) \<and>
                       length (new_matches res) \<le> length (dY_dp ! j) \<and>
                       length (new_matches res) \<le> length (dPhi_dp ! j)) [0..<length dX_dp] \<and>
        10 \<le> length (new_matches res) \<and>
        length (new_matches res) \<le> length (old_matches res) \<and>
        list_all (\<lambda>m. length dX_dp \<le> length (gradients m)) (old_matches res))"

subsection \<open>Concrete inputs\<close>

text \<open>
  A small instance on which the model is evaluated: exact arithmetic, a model is the
  vector that controls it, a table row is a reflection.
\<close>

definition ex_par :: "real list \<Rightarrow> (real, real list) parameterisation" where
  "ex_par vs = \<lparr>param_vals = vs, model = vs, compose = (\<lambda>v. v)\<rparr>"

definition ex_params :: "(real, real list) params" where
  "ex_params = \<lparr>det_param = ex_par [100, 0, 0, 0, 0, 0], s0_param = ex_par [1],
     xl1o_param = ex_par [0, 0, 0], xl1uc_param = ex_par [3, 4],
     xl2o_param = ex_par [1, 1, 1], xl2uc_param = ex_par [5, 6]\<rparr>"

definition ex_shifted :: "(real, real list) params" where
  "ex_shifted = \<lparr>det_param = ex_par [102, 2, 2, 5, 5, 5], s0_param = ex_par [3],
     xl1o_param = ex_par [2, 2, 2], xl1uc_param = ex_par [1010000, 1010000],
     xl2o_param = ex_par [3, 3, 3], xl2uc_param = ex_par [1010000, 1010000]\<rparr>"

definition ex_saved :: "real saved" where
  "ex_saved = \<lparr>det_p_vals = [100, 0, 0, 0, 0, 0], s0_p_vals = [1],
     xlo_p_vals = [ [0, 0, 0], [1, 1, 1]], xluc_p_vals = [ [3, 4], [5, 6]]\<rparr>"

definition ex_ref :: "real \<Rightarrow> real \<Rightarrow> real \<Rightarrow> real reflection" where
  "ex_ref a x y = \<lparr>rotation_angle = a, image_coord_mm = (x, y), centroid_position = (0, 0, 0),
     centroid_variance = (0, 0, 0), frame_number = 0, crystal = 7\<rparr>"

definition ex_row :: "nat \<Rightarrow> (real, nat) match_row" where
  "ex_row k = \<lparr>miller_index = k, x_resid = real k, order = 0\<rparr>"

definition ex_old_match :: "nat \<Rightarrow> (real, nat) old_match" where
  "ex_old_match k = \<lparr>old_miller_index = k, old_x_resid = real k,
     gradients = [(10 + real k, 20 + real k, 30 + real k)]\<rparr>"

definition ex_grads :: "nat list \<Rightarrow> real grads" where
  "ex_grads ks = ([map (\<lambda>k. 10 + real k) ks], [map (\<lambda>k. 20 + real k) ks],
                  [map (\<lambda>k. 30 + real k) ks])"

text \<open>
  The library of the instance: new matches for the given numbers \<open>ks\<close>, in that order,
  and old matches for the numbers \<open>js\<close>. The constructor of the new reflection manager
  drops the first row of the table it is given.
\<close>

definition ex_lib :: "nat list \<Rightarrow> nat list \<Rightarrow> (real, nat, real list, real reflection) lib" where
  "ex_lib ks js = \<lparr>
     approx_equal = (\<lambda>a b. \<bar>a - b\<bar> \<le> 1 / 1000000),
     get_oscillation_range = (0, pi),
     get_oscillation = (0, pi / 1800),
     n_detectors = 1,
     cell_of = (\<lambda>m. [10, 10, 10, 90, 90, 90]),
     indep_of = (\<lambda>m c. take 2 c),
     predict = (\<lambda>ps k. if k = 0 then [ex_ref 1 3 4, ex_ref 2 5 6] else [ex_ref 3 7 8]),
     get_pixel_size = (\<lambda>m. (2, 4)),
     ray_intersection = (\<lambda>m refs. refs),
     get_image_index_from_angle = (\<lambda>a. a * 10),
     to_table = (\<lambda>refs. refs),
     new_refman = (\<lambda>ps t. tl t),
     new_target = (\<lambda>ps t. t),
     new_predict = (\<lambda>ps t. t),
     new_finalise = (\<lambda>ps t. t),
     new_gradients = (\<lambda>ps t. t),
     get_matches = (\<lambda>ps t. map ex_row ks),
     calculate_gradients = (\<lambda>ps t. ex_grads ks),
     old_get_matches = (\<lambda>ps t. map ex_old_match js)\<rparr>"

text \<open>What the two pipelines of the instance return.\<close>

definition ex_results :: "nat list \<Rightarrow> nat list \<Rightarrow> (real, nat) results" where
  "ex_results ks js = \<lparr>n_new_printed = length ks, new_matches = map ex_row ks,
     new_grads = ex_grads ks, old_matches = map ex_old_match js\<rparr>"

section \<open>Properties\<close>

subsection \<open>Auxiliary facts\<close>

lemma and_then_Inl: "and_then (Inl e) f = Inl e"
  by (simp add: and_then_def)

lemma and_then_Inr: "and_then (Inr x) f = f x"
  by (simp add: and_then_def)

lemma length_zip_add: "length (zip_add fp xs ys) = min (length xs) (length ys)"
  by (simp add: zip_add_def)

lemma nth_zip_add:
  "k < length xs \<Longrightarrow> k < length ys \<Longrightarrow> zip_add fp xs ys ! k = f_add fp (xs ! k) (ys ! k)"
  by (simp add: zip_add_def)

lemma get_set_param_vals: "get_param_vals (set_param_vals vals p) = vals"
  by (simp add: get_param_vals_def set_param_vals_def)

lemma shift_s0_Inr:
  "shift_s0 fp vals = Inr p_vals \<Longrightarrow>
     vals \<noteq> [] \<and> p_vals = vals[0 := f_add fp (vals ! 0) (f_lit fp 2)]"
  by (auto simp: shift_s0_def py_index_def split: if_splits)

text \<open>What a run of the shifts that does not raise has saved and has set.\<close>

lemma apply_shifts_Inr:
  assumes "apply_shifts fp lb ps = Inr (sv, ps1)"
  shows "\<exists>p_vals. shift_s0 fp (get_param_vals (s0_param ps)) = Inr p_vals \<and>
     sv = \<lparr>det_p_vals = get_param_vals (det_param ps),
            s0_p_vals = get_param_vals (s0_param ps),
            xlo_p_vals = [get_param_vals (xl1o_param ps), get_param_vals (xl2o_param ps)],
            xluc_p_vals = [get_param_vals (xl1uc_param ps), get_param_vals (xl2uc_param ps)]\<rparr> \<and>
     ps1 = ps\<lparr>det_param :=
                set_param_vals (shift_det fp (get_param_vals (det_param ps))) (det_param ps),
              s0_param := set_param_vals p_vals (s0_param ps),
              xl1o_param :=
                set_param_vals (shift_xlo fp (get_param_vals (xl1o_param ps))) (xl1o_param ps),
              xl2o_param :=
                set_param_vals (shift_xlo fp (get_param_vals (xl2o_param ps))) (xl2o_param ps),
              xl1uc_param :=
                set_param_vals (shift_xluc fp (indep_of lb (model (xl1uc_param ps)))
                  (cell_of lb (model (xl1uc_param ps)))) (xl1uc_param ps),
              xl2uc_param :=
                set_param_vals (shift_xluc fp (indep_of lb (model (xl2uc_param ps)))
                  (cell_of lb (model (xl2uc_param ps)))) (xl2uc_param ps)\<rparr>"
  using assms by (auto simp: apply_shifts_def Let_def split: sum.splits)

lemma ex_apply_shifts:
  "apply_shifts exact_ops (ex_lib ks js) ex_params = Inr (ex_saved, ex_shifted)"
  by (simp add: apply_shifts_def ex_params_def ex_shifted_def ex_saved_def ex_par_def
      ex_lib_def exact_ops_def shift_s0_def shift_det_def shift_xlo_def shift_xluc_def
      det_offsets_def xlo_offsets_def cell_offsets_def zip_add_def py_index_def
      get_param_vals_def set_param_vals_def Let_def)

subsection \<open>The parameter shifts\<close>

text \<open>
  C7. The shift applied to every parameter vector is a fixed offset added to the values
  read with \<open>get_param_vals\<close>. After a run of lines 134 to 168 that does not raise, the
  detector vector read back is the old one with 2.0, 2.0, 2.0, 5.0, 5.0, 5.0 added
  position by position (as many positions as both have); the beam vector is not empty,
  has kept its length, and 2.0 was added to its first element and to no other; each crystal
  orientation vector is the old one with 2.0, 2.0, 2.0 added position by position.
\<close>

theorem shifts_are_fixed_offsets:
  assumes "apply_shifts fp lb ps = Inr (sv, ps1)"
  shows "length (get_param_vals (det_param ps1)) = min (length (get_param_vals (det_param ps))) 6
     \<and> (\<forall>k < length (get_param_vals (det_param ps1)).
          get_param_vals (det_param ps1) ! k =
            f_add fp (get_param_vals (det_param ps) ! k) (map (f_lit fp) [2, 2, 2, 5, 5, 5] ! k))
     \<and> get_param_vals (s0_param ps) \<noteq> []
     \<and> length (get_param_vals (s0_param ps1)) = length (get_param_vals (s0_param ps))
     \<and> (\<forall>k < length (get_param_vals (s0_param ps1)).
          get_param_vals (s0_param ps1) ! k =
            (if k = 0 then f_add fp (get_param_vals (s0_param ps) ! 0) (f_lit fp 2)
             else get_param_vals (s0_param ps) ! k))
     \<and> length (get_param_vals (xl1o_param ps1)) = min (length (get_param_vals (xl1o_param ps))) 3
     \<and> (\<forall>k < length (get_param_vals (xl1o_param ps1)).
          get_param_vals (xl1o_param ps1) ! k =
            f_add fp (get_param_vals (xl1o_param ps) ! k) (map (f_lit fp) [2, 2, 2] ! k))
     \<and> length (get_param_vals (xl2o_param ps1)) = min (length (get_param_vals (xl2o_param ps))) 3
     \<and> (\<forall>k < length (get_param_vals (xl2o_param ps1)).
          get_param_vals (xl2o_param ps1) ! k =
            f_add fp (get_param_vals (xl2o_param ps) ! k) (map (f_lit fp) [2, 2, 2] ! k))"
proof -
  from apply_shifts_Inr [OF assms] obtain p_vals where
    s0: "shift_s0 fp (get_param_vals (s0_param ps)) = Inr p_vals" and
    ps1: "ps1 = ps\<lparr>det_param :=
                set_param_vals (shift_det fp (get_param_vals (det_param ps))) (det_param ps),
              s0_param := set_param_vals p_vals (s0_param ps),
              xl1o_param :=
                set_param_vals (shift_xlo fp (get_param_vals (xl1o_param ps))) (xl1o_param ps),
              xl2o_param :=
                set_param_vals (shift_xlo fp (get_param_vals (xl2o_param ps))) (xl2o_param ps),
              xl1uc_param :=
                set_param_vals (shift_xluc fp (indep_of lb (model (xl1uc_param ps)))
                  (cell_of lb (model (xl1uc_param ps)))) (xl1uc_param ps),
              xl2uc_param :=
                set_param_vals (shift_xluc fp (indep_of lb (model (xl2uc_param ps)))
                  (cell_of lb (model (xl2uc_param ps)))) (xl2uc_param ps)\<rparr>"
    by blast
  have det: "get_param_vals (det_param ps1) =
      zip_add fp (get_param_vals (det_param ps)) (det_offsets fp)"
    by (simp add: ps1 get_set_param_vals shift_det_def)
  have o1: "get_param_vals (xl1o_param ps1) =
      zip_add fp (get_param_vals (xl1o_param ps)) (xlo_offsets fp)"
    by (simp add: ps1 get_set_param_vals shift_xlo_def)
  have o2: "get_param_vals (xl2o_param ps1) =
      zip_add fp (get_param_vals (xl2o_param ps)) (xlo_offsets fp)"
    by (simp add: ps1 get_set_param_vals shift_xlo_def)
  have b: "get_param_vals (s0_param ps1) = p_vals"
    by (simp add: ps1 get_set_param_vals)
  note s0' = shift_s0_Inr [OF s0]
  have ldet: "length (det_offsets fp) = 6" and lxlo: "length (xlo_offsets fp) = 3"
    by (simp_all add: det_offsets_def xlo_offsets_def)
  have c1: "length (get_param_vals (det_param ps1)) =
      min (length (get_param_vals (det_param ps))) 6"
    by (simp add: det length_zip_add ldet)
  have c2: "\<forall>k < length (get_param_vals (det_param ps1)).
          get_param_vals (det_param ps1) ! k =
            f_add fp (get_param_vals (det_param ps) ! k) (map (f_lit fp) [2, 2, 2, 5, 5, 5] ! k)"
    unfolding det using nth_zip_add [of _ "get_param_vals (det_param ps)" "det_offsets fp" fp]
    by (simp add: length_zip_add ldet) (simp add: det_offsets_def)
  have c3: "length (get_param_vals (xl1o_param ps1)) =
      min (length (get_param_vals (xl1o_param ps))) 3"
    by (simp add: o1 length_zip_add lxlo)
  have c4: "\<forall>k < length (get_param_vals (xl1o_param ps1)).
          get_param_vals (xl1o_param ps1) ! k =
            f_add fp (get_param_vals (xl1o_param ps) ! k) (map (f_lit fp) [2, 2, 2] ! k)"
    unfolding o1 using nth_zip_add [of _ "get_param_vals (xl1o_param ps)" "xlo_offsets fp" fp]
    by (simp add: length_zip_add lxlo) (simp add: xlo_offsets_def)
  have c5: "length (get_param_vals (xl2o_param ps1)) =
      min (length (get_param_vals (xl2o_param ps))) 3"
    by (simp add: o2 length_zip_add lxlo)
  have c6: "\<forall>k < length (get_param_vals (xl2o_param ps1)).
          get_param_vals (xl2o_param ps1) ! k =
            f_add fp (get_param_vals (xl2o_param ps) ! k) (map (f_lit fp) [2, 2, 2] ! k)"
    unfolding o2 using nth_zip_add [of _ "get_param_vals (xl2o_param ps)" "xlo_offsets fp" fp]
    by (simp add: length_zip_add lxlo) (simp add: xlo_offsets_def)
  have c7: "\<forall>k < length (get_param_vals (s0_param ps1)).
          get_param_vals (s0_param ps1) ! k =
            (if k = 0 then f_add fp (get_param_vals (s0_param ps) ! 0) (f_lit fp 2)
             else get_param_vals (s0_param ps) ! k)"
    unfolding b using s0' by (auto simp: nth_list_update)
  have c8: "length (get_param_vals (s0_param ps1)) = length (get_param_vals (s0_param ps))"
    unfolding b using s0' by simp
  from c1 c2 c3 c4 c5 c6 c7 c8 s0' show ?thesis by blast
qed

theorem shifts_are_fixed_offsets_witness:
  "apply_shifts exact_ops (ex_lib [] []) ex_params = Inr (ex_saved, ex_shifted)
   \<and> get_param_vals (det_param ex_params) = [100, 0, 0, 0, 0, 0]
   \<and> length (get_param_vals (det_param ex_shifted)) = 6
   \<and> get_param_vals (det_param ex_shifted) ! 0 = 102
   \<and> get_param_vals (det_param ex_shifted) ! 3 = 5
   \<and> get_param_vals (s0_param ex_shifted) ! 0 = 3
   \<and> get_param_vals (xl2o_param ex_shifted) ! 2 = 3"
  using shifts_are_fixed_offsets [OF ex_apply_shifts [of "[]" "[]"]] ex_apply_shifts [of "[]" "[]"]
  by (simp add: ex_params_def ex_shifted_def ex_par_def get_param_vals_def)

subsection \<open>Restoring the parameters\<close>

text \<open>
  C4. For every parameterisation (detector, beam orientation, both crystal orientations,
  both crystal unit cells): after the shifts of lines 134 to 168 and the restore of lines
  251 to 256, which does not raise, \<open>get_param_vals\<close> returns exactly the vector it
  returned before the shifts. Where every model was in the state its vector determines
  before the shifts, the parameterisations and their models are as they were.
\<close>

theorem perturb_then_restore:
  assumes "apply_shifts fp lb ps = Inr (sv, ps1)"
  shows "\<exists>ps2. undo_shifts sv ps1 = Inr ps2
     \<and> get_param_vals (det_param ps2) = get_param_vals (det_param ps)
     \<and> get_param_vals (s0_param ps2) = get_param_vals (s0_param ps)
     \<and> get_param_vals (xl1o_param ps2) = get_param_vals (xl1o_param ps)
     \<and> get_param_vals (xl2o_param ps2) = get_param_vals (xl2o_param ps)
     \<and> get_param_vals (xl1uc_param ps2) = get_param_vals (xl1uc_param ps)
     \<and> get_param_vals (xl2uc_param ps2) = get_param_vals (xl2uc_param ps)
     \<and> (composed (det_param ps) \<and> composed (s0_param ps) \<and> composed (xl1o_param ps)
        \<and> composed (xl2o_param ps) \<and> composed (xl1uc_param ps) \<and> composed (xl2uc_param ps)
        \<longrightarrow> ps2 = ps)"
proof -
  from apply_shifts_Inr [OF assms] obtain p_vals where
    sv: "sv = \<lparr>det_p_vals = get_param_vals (det_param ps),
            s0_p_vals = get_param_vals (s0_param ps),
            xlo_p_vals = [get_param_vals (xl1o_param ps), get_param_vals (xl2o_param ps)],
            xluc_p_vals = [get_param_vals (xl1uc_param ps), get_param_vals (xl2uc_param ps)]\<rparr>" and
    ps1: "ps1 = ps\<lparr>det_param :=
                set_param_vals (shift_det fp (get_param_vals (det_param ps))) (det_param ps),
              s0_param := set_param_vals p_vals (s0_param ps),
              xl1o_param :=
                set_param_vals (shift_xlo fp (get_param_vals (xl1o_param ps))) (xl1o_param ps),
              xl2o_param :=
                set_param_vals (shift_xlo fp (get_param_vals (xl2o_param ps))) (xl2o_param ps),
              xl1uc_param :=
                set_param_vals (shift_xluc fp (indep_of lb (model (xl1uc_param ps)))
                  (cell_of lb (model (xl1uc_param ps)))) (xl1uc_param ps),
              xl2uc_param :=
                set_param_vals (shift_xluc fp (indep_of lb (model (xl2uc_param ps)))
                  (cell_of lb (model (xl2uc_param ps)))) (xl2uc_param ps)\<rparr>"
    by blast
  show ?thesis
    by (simp add: sv ps1 undo_shifts_def py_index_def get_param_vals_def set_param_vals_def
        composed_def)
qed

theorem perturb_then_restore_witness:
  "apply_shifts exact_ops (ex_lib [] []) ex_params = Inr (ex_saved, ex_shifted)
   \<and> composed (det_param ex_params) \<and> composed (s0_param ex_params)
   \<and> composed (xl1o_param ex_params) \<and> composed (xl2o_param ex_params)
   \<and> composed (xl1uc_param ex_params) \<and> composed (xl2uc_param ex_params)
   \<and> get_param_vals (det_param ex_shifted) \<noteq> get_param_vals (det_param ex_params)
   \<and> undo_shifts ex_saved ex_shifted = Inr ex_params"
proof -
  have c: "composed (det_param ex_params) \<and> composed (s0_param ex_params)
     \<and> composed (xl1o_param ex_params) \<and> composed (xl2o_param ex_params)
     \<and> composed (xl1uc_param ex_params) \<and> composed (xl2uc_param ex_params)"
    by (simp add: composed_def ex_params_def ex_par_def)
  have d: "get_param_vals (det_param ex_shifted) \<noteq> get_param_vals (det_param ex_params)"
    by (simp add: ex_params_def ex_shifted_def ex_par_def get_param_vals_def)
  from perturb_then_restore [OF ex_apply_shifts [of "[]" "[]"]] c
  have "undo_shifts ex_saved ex_shifted = Inr ex_params" by auto
  with c d ex_apply_shifts [of "[]" "[]"] show ?thesis by blast
qed

subsection \<open>The observations\<close>

text \<open>
  C8. For every reflection of either crystal's list, after the intersection with the
  detector: \<open>centroid_position\<close> is the pair \<open>image_coord_mm\<close> extended by the rotation
  angle; \<open>centroid_variance\<close> is \<open>((px_x / 2)\<^sup>2, (px_y / 2)\<^sup>2, (im_width / 2)\<^sup>2)\<close> with
  \<open>im_width = 0.1 * pi / 180\<close>, the same for all; \<open>frame_number\<close> is the scan's image
  index of the rotation angle. The loops leave the angle and the coordinates as the
  intersection returned them, and keep the number of reflections.
\<close>

theorem observation_fields:
  "(\<forall>k < length (ray_intersection lb (model (det_param ps)) (predict lb ps 0)).
      centroid_position (obs_refs1 fp lb ps ! k) =
        (fst (image_coord_mm (ray_intersection lb (model (det_param ps)) (predict lb ps 0) ! k)),
         snd (image_coord_mm (ray_intersection lb (model (det_param ps)) (predict lb ps 0) ! k)),
         rotation_angle (ray_intersection lb (model (det_param ps)) (predict lb ps 0) ! k))
    \<and> centroid_variance (obs_refs1 fp lb ps ! k) =
        (f_pow fp (f_div fp (fst (get_pixel_size lb (model (det_param ps)))) (f_lit fp 2)) 2,
         f_pow fp (f_div fp (snd (get_pixel_size lb (model (det_param ps)))) (f_lit fp 2)) 2,
         f_pow fp (f_div fp (f_div fp (f_mul fp (f_lit fp 0.1) (f_pi fp)) (f_lit fp 180))
           (f_lit fp 2)) 2)
    \<and> frame_number (obs_refs1 fp lb ps ! k) =
        get_image_index_from_angle lb
          (rotation_angle (ray_intersection lb (model (det_param ps)) (predict lb ps 0) ! k))
    \<and> rotation_angle (obs_refs1 fp lb ps ! k) =
        rotation_angle (ray_intersection lb (model (det_param ps)) (predict lb ps 0) ! k)
    \<and> image_coord_mm (obs_refs1 fp lb ps ! k) =
        image_coord_mm (ray_intersection lb (model (det_param ps)) (predict lb ps 0) ! k))
  \<and> (\<forall>k < length (ray_intersection lb (model (det_param ps)) (predict lb ps 1)).
      centroid_position (obs_refs2 fp lb ps ! k) =
        (fst (image_coord_mm (ray_intersection lb (model (det_param ps)) (predict lb ps 1) ! k)),
         snd (image_coord_mm (ray_intersection lb (model (det_param ps)) (predict lb ps 1) ! k)),
         rotation_angle (ray_intersection lb (model (det_param ps)) (predict lb ps 1) ! k))
    \<and> centroid_variance (obs_refs2 fp lb ps ! k) =
        (f_pow fp (f_div fp (fst (get_pixel_size lb (model (det_param ps)))) (f_lit fp 2)) 2,
         f_pow fp (f_div fp (snd (get_pixel_size lb (model (det_param ps)))) (f_lit fp 2)) 2,
         f_pow fp (f_div fp (f_div fp (f_mul fp (f_lit fp 0.1) (f_pi fp)) (f_lit fp 180))
           (f_lit fp 2)) 2)
    \<and> frame_number (obs_refs2 fp lb ps ! k) =
        get_image_index_from_angle lb
          (rotation_angle (ray_intersection lb (model (det_param ps)) (predict lb ps 1) ! k))
    \<and> rotation_angle (obs_refs2 fp lb ps ! k) =
        rotation_angle (ray_intersection lb (model (det_param ps)) (predict lb ps 1) ! k)
    \<and> image_coord_mm (obs_refs2 fp lb ps ! k) =
        image_coord_mm (ray_intersection lb (model (det_param ps)) (predict lb ps 1) ! k))
  \<and> length (obs_refs1 fp lb ps) = length (ray_intersection lb (model (det_param ps)) (predict lb ps 0))
  \<and> length (obs_refs2 fp lb ps) = length (ray_intersection lb (model (det_param ps)) (predict lb ps 1))"
  by (simp add: obs_refs1_def obs_refs2_def observe1_def observe2_def variances_def Let_def)

theorem observation_fields_witness:
  "length (ray_intersection (ex_lib [] []) (model (det_param ex_shifted)) (predict (ex_lib [] []) ex_shifted 0)) = 2
   \<and> centroid_position (obs_refs1 exact_ops (ex_lib [] []) ex_shifted ! 1) = (5, 6, 2)
   \<and> centroid_variance (obs_refs1 exact_ops (ex_lib [] []) ex_shifted ! 1) = (1, 4, (pi / 3600)\<^sup>2)
   \<and> frame_number (obs_refs1 exact_ops (ex_lib [] []) ex_shifted ! 1) = 20
   \<and> length (ray_intersection (ex_lib [] []) (model (det_param ex_shifted)) (predict (ex_lib [] []) ex_shifted 1)) = 1
   \<and> centroid_position (obs_refs2 exact_ops (ex_lib [] []) ex_shifted ! 0) = (7, 8, 3)
   \<and> frame_number (obs_refs2 exact_ops (ex_lib [] []) ex_shifted ! 0) = 30"
  using observation_fields [of "ex_lib [] []" ex_shifted exact_ops]
  by (simp add: ex_lib_def ex_ref_def exact_ops_def power2_eq_square)

text \<open>
  C10. In the concatenated list every reflection carries the number of the crystal it
  was generated for: the records of \<open>obs_refs1\<close> have crystal 0, those of \<open>obs_refs2\<close>
  crystal 1, and in \<open>obs_refs\<close> the first \<open>len(obs_refs1)\<close> records are those of
  \<open>obs_refs1\<close>, with crystal 0, and the rest those of \<open>obs_refs2\<close>, with crystal 1.
\<close>

theorem crystal_labels:
  "(\<forall>r \<in> set (obs_refs1 fp lb ps). crystal r = 0)
   \<and> (\<forall>r \<in> set (obs_refs2 fp lb ps). crystal r = 1)
   \<and> length (obs_refs fp lb ps) = length (obs_refs1 fp lb ps) + length (obs_refs2 fp lb ps)
   \<and> (\<forall>k < length (obs_refs fp lb ps).
        obs_refs fp lb ps ! k =
          (if k < length (obs_refs1 fp lb ps) then obs_refs1 fp lb ps ! k
           else obs_refs2 fp lb ps ! (k - length (obs_refs1 fp lb ps)))
      \<and> crystal (obs_refs fp lb ps ! k) = (if k < length (obs_refs1 fp lb ps) then 0 else 1))"
proof -
  have a: "\<forall>r \<in> set (obs_refs1 fp lb ps). crystal r = 0"
    by (auto simp: obs_refs1_def observe1_def Let_def)
  have b: "\<forall>r \<in> set (obs_refs2 fp lb ps). crystal r = 1"
    by (auto simp: obs_refs2_def observe2_def Let_def)
  have c: "length (obs_refs fp lb ps) = length (obs_refs1 fp lb ps) + length (obs_refs2 fp lb ps)"
    by (simp add: obs_refs_def concatenate_def)
  have d: "\<forall>k < length (obs_refs fp lb ps).
        obs_refs fp lb ps ! k =
          (if k < length (obs_refs1 fp lb ps) then obs_refs1 fp lb ps ! k
           else obs_refs2 fp lb ps ! (k - length (obs_refs1 fp lb ps)))"
    by (simp add: obs_refs_def concatenate_def nth_append)
  have e: "\<forall>k < length (obs_refs fp lb ps).
      crystal (obs_refs fp lb ps ! k) = (if k < length (obs_refs1 fp lb ps) then 0 else 1)"
  proof (intro allI impI)
    fix k assume k: "k < length (obs_refs fp lb ps)"
    show "crystal (obs_refs fp lb ps ! k) = (if k < length (obs_refs1 fp lb ps) then 0 else 1)"
    proof (cases "k < length (obs_refs1 fp lb ps)")
      case True
      then have "obs_refs1 fp lb ps ! k \<in> set (obs_refs1 fp lb ps)" by simp
      with a d k True show ?thesis by simp
    next
      case False
      with k c have "k - length (obs_refs1 fp lb ps) < length (obs_refs2 fp lb ps)" by simp
      then have "obs_refs2 fp lb ps ! (k - length (obs_refs1 fp lb ps)) \<in> set (obs_refs2 fp lb ps)"
        by simp
      with b d k False show ?thesis by simp
    qed
  qed
  from a b c d e show ?thesis by blast
qed

theorem crystal_labels_witness:
  "length (obs_refs exact_ops (ex_lib [] []) ex_shifted) = 3
   \<and> map crystal (predict (ex_lib [] []) ex_shifted 0) = [7, 7]
   \<and> map crystal (obs_refs exact_ops (ex_lib [] []) ex_shifted) = [0, 0, 1]"
  using crystal_labels [of exact_ops "ex_lib [] []" ex_shifted]
  by (simp add: obs_refs_def concatenate_def obs_refs1_def obs_refs2_def observe1_def observe2_def
      ex_lib_def ex_ref_def Let_def)

subsection \<open>The copy handed to the old classes\<close>

text \<open>
  C9. \<open>old_reflections\<close> is another table than \<open>reflections\<close>, and whatever the
  constructors of the new reflection manager and target, the prediction, \<open>finalise\<close> and the gradient
  calculation do to the table the manager was given, the table \<open>old_reflections\<close> holds the
  rows that \<open>to_table\<close> returned: the old reflection manager is run on those.
\<close>

theorem deepcopy_isolates:
  "(case new_pipeline lb ps refs of (reflections, old_reflections, n_new, g, h) \<Rightarrow>
      reflections \<noteq> old_reflections
      \<and> h ! old_reflections = to_table lb refs
      \<and> h ! reflections =
          new_gradients lb ps (new_finalise lb ps (new_predict lb ps
            (new_target lb ps (new_refman lb ps (to_table lb refs))))))
   \<and> old_matches (run_pipelines lb ps refs) = old_get_matches lb ps (to_table lb refs)"
  by (simp add: new_pipeline_def run_pipelines_def alloc_def deepcopy_def in_place_def Let_def)

theorem deepcopy_isolates_witness:
  "(case new_pipeline (ex_lib [] []) ex_params [ex_ref 1 3 4, ex_ref 2 5 6]
    of (reflections, old_reflections, n_new, g, h) \<Rightarrow>
      h ! old_reflections = [ex_ref 1 3 4, ex_ref 2 5 6] \<and> h ! reflections = [ex_ref 2 5 6])"
  using deepcopy_isolates [where lb = "ex_lib [] []" and ps = ex_params
      and refs = "[ex_ref 1 3 4, ex_ref 2 5 6]"]
  by (simp add: new_pipeline_def alloc_def deepcopy_def in_place_def ex_lib_def Let_def)

subsection \<open>Facts about the loops and the sort\<close>

lemma and_then_eq_Inl:
  "and_then m f = Inl e \<longleftrightarrow> m = Inl e \<or> (\<exists>x. m = Inr x \<and> f x = Inl e)"
  by (cases m) (simp_all add: and_then_def)

lemma and_then_eq_Inr:
  "and_then m f = Inr y \<longleftrightarrow> (\<exists>x. m = Inr x \<and> f x = Inr y)"
  by (cases m) (simp_all add: and_then_def)

lemma py_index_Inr: "i < length xs \<Longrightarrow> py_index xs i = Inr (xs ! i)"
  by (simp add: py_index_def)

lemma py_index_eq_Inr: "py_index xs i = Inr x \<longleftrightarrow> i < length xs \<and> x = xs ! i"
  by (auto simp: py_index_def)

lemma py_index_eq_Inl: "py_index xs i = Inl e \<longleftrightarrow> \<not> i < length xs \<and> e = IndexError"
  by (auto simp: py_index_def)

lemma select_Inr: "\<forall>k \<in> set ks. k < length xs \<Longrightarrow> select xs ks = Inr (map (\<lambda>k. xs ! k) ks)"
  by (simp add: select_def list_all_iff)

lemma select_eq_Inl: "select xs ks = Inl e \<Longrightarrow> e = LibraryError"
  by (auto simp: select_def split: if_splits)

lemma length_assign_order: "length (assign_order rows) = length rows"
  by (simp add: assign_order_def)

lemma nth_assign_order:
  "k < length rows \<Longrightarrow> assign_order rows ! k = (rows ! k)\<lparr>order := k\<rparr>"
  by (simp add: assign_order_def)

lemma order_assign_order: "map order (assign_order rows) = [0..<length rows]"
  by (rule nth_equalityI) (simp_all add: length_assign_order nth_assign_order)

lemma assign_order_row:
  assumes "r \<in> set (assign_order rows)"
  shows "order r < length rows \<and> r = assign_order rows ! order r"
proof -
  from assms obtain k where k: "k < length (assign_order rows)" "r = assign_order rows ! k"
    by (auto simp: in_set_conv_nth)
  then have "order r = k" by (simp add: length_assign_order nth_assign_order)
  with k show ?thesis by (simp add: length_assign_order)
qed

lemma sort_table_props:
  "mset (sort_table rows) = mset rows" "set (sort_table rows) = set rows"
  "length (sort_table rows) = length rows" "sorted (map x_resid (sort_table rows))"
  by (simp_all add: sort_table_def)

lemma sort_old_props:
  "mset (sort_old ms) = mset ms" "set (sort_old ms) = set ms"
  "length (sort_old ms) = length ms" "sorted (map old_x_resid (sort_old ms))"
  by (simp_all add: sort_old_def)

lemma selected_Nil: "selected [] ord A = A"
  by (simp add: selected_def map_nth)

lemma selected_Cons:
  assumes "i < length A" "i \<notin> set is"
  shows "selected is ord (A[i := map (\<lambda>k. A ! i ! k) ord]) = selected (i # is) ord A"
  unfolding selected_def using assms
  by (intro nth_equalityI) (auto simp: nth_list_update)

lemma select_gradients_Inr:
  assumes "distinct is"
    and "\<forall>i \<in> set is. i < length dX \<and> i < length dY \<and> i < length dPhi"
    and "\<forall>i \<in> set is. \<forall>k \<in> set ord.
           k < length (dX ! i) \<and> k < length (dY ! i) \<and> k < length (dPhi ! i)"
  shows "select_gradients is ord (dX, dY, dPhi) =
     Inr (selected is ord dX, selected is ord dY, selected is ord dPhi)"
  using assms
proof (induction "is" arbitrary: dX dY dPhi)
  case Nil
  then show ?case by (simp add: selected_Nil)
next
  case (Cons i "is")
  let ?dX = "dX[i := map (\<lambda>k. dX ! i ! k) ord]"
  let ?dY = "dY[i := map (\<lambda>k. dY ! i ! k) ord]"
  let ?dPhi = "dPhi[i := map (\<lambda>k. dPhi ! i ! k) ord]"
  from Cons.prems have i: "i < length dX" "i < length dY" "i < length dPhi" "i \<notin> set is"
    and d: "distinct is" by auto
  from Cons.prems have sel: "select (dX ! i) ord = Inr (map (\<lambda>k. dX ! i ! k) ord)"
    "select (dY ! i) ord = Inr (map (\<lambda>k. dY ! i ! k) ord)"
    "select (dPhi ! i) ord = Inr (map (\<lambda>k. dPhi ! i ! k) ord)"
    by (simp_all add: select_Inr)
  have step: "select_gradients (i # is) ord (dX, dY, dPhi) =
      select_gradients is ord (?dX, ?dY, ?dPhi)"
    by (simp add: py_index_Inr i sel and_then_Inr)
  have r: "\<forall>i' \<in> set is. i' < length ?dX \<and> i' < length ?dY \<and> i' < length ?dPhi"
    using Cons.prems by simp
  have r2: "\<forall>i' \<in> set is. \<forall>k \<in> set ord.
           k < length (?dX ! i') \<and> k < length (?dY ! i') \<and> k < length (?dPhi ! i')"
    using Cons.prems i by (auto simp: nth_list_update)
  from Cons.IH [OF d r r2] step
  show ?case by (simp add: selected_Cons i)
qed

lemma select_gradients_eq_Inl:
  "select_gradients is ord g = Inl e \<Longrightarrow> e = IndexError \<or> e = LibraryError"
proof (induction "is" ord g rule: select_gradients.induct)
  case (1 ord g)
  then show ?case by simp
next
  case (2 i "is" ord dX_dp dY_dp dPhi_dp)
  from "2.prems" show ?case
    by (auto simp: and_then_eq_Inl py_index_eq_Inl py_index_eq_Inr dest: select_eq_Inl "2.IH")
qed

lemma for_lines_Inr:
  "\<forall>i \<in> set is. body i = Inr (f i) \<Longrightarrow> for_lines is body = Inr (map f is)"
  by (induction "is") (simp_all add: and_then_Inr)

lemma for_lines_eq_Inl:
  "for_lines is body = Inl e \<Longrightarrow> \<exists>i \<in> set is. body i = Inl e"
  by (induction "is") (auto simp: and_then_eq_Inl)

lemma for_each_eq_Inr: "for_each is body = Inr () \<longleftrightarrow> (\<forall>i \<in> set is. body i = Inr ())"
  by (induction "is") (auto simp: and_then_eq_Inr)

lemma for_each_eq_Inl:
  "for_each is body = Inl e \<Longrightarrow> \<exists>i \<in> set is. body i = Inl e"
  by (induction "is") (auto simp: and_then_eq_Inl)

lemma assert_approx_eq:
  "assert_approx lb a b = Inr u \<longleftrightarrow> approx_equal lb a b"
  "assert_approx lb a b = Inl e \<longleftrightarrow> \<not> approx_equal lb a b \<and> e = AssertionError"
  by (auto simp: assert_approx_def)

lemma test_gradient_in_range:
  assumes "j < length dX" "j < length dY" "j < length dPhi"
    "i < length (dX ! j)" "i < length (dY ! j)" "i < length (dPhi ! j)"
    "i < length om" "j < length (gradients (om ! i))"
  shows "test_gradient lb (dX, dY, dPhi) om i j =
     (if agree_at lb (dX, dY, dPhi) om i j then Inr () else Inl AssertionError)"
  using assms
  by (simp add: test_gradient_def agree_at_def py_index_Inr and_then_Inr assert_approx_def
      and_then_Inl)

lemma test_gradient_eq_Inl:
  assumes "test_gradient lb g om i j = Inl e"
  shows "e = IndexError \<or> (e = AssertionError \<and> \<not> agree_at lb g om i j)"
proof -
  obtain dX dY dPhi where g: "g = (dX, dY, dPhi)" by (cases g) auto
  from assms show ?thesis
    unfolding g test_gradient_def agree_at_def
    by (auto simp: and_then_eq_Inl py_index_eq_Inl py_index_eq_Inr assert_approx_eq)
qed

lemma sorted_new_rows:
  assumes "i < length (sort_table (assign_order rows))"
  shows "order (sort_table (assign_order rows) ! i) < length rows
     \<and> sort_table (assign_order rows) ! i =
         (rows ! order (sort_table (assign_order rows) ! i))
           \<lparr>order := order (sort_table (assign_order rows) ! i)\<rparr>"
proof -
  let ?r = "sort_table (assign_order rows) ! i"
  from assms have "?r \<in> set (sort_table (assign_order rows))" by simp
  then have "?r \<in> set (assign_order rows)" by (simp add: sort_table_props)
  from assign_order_row [OF this]
  have o: "order ?r < length rows" and e: "?r = assign_order rows ! order ?r" by blast+
  from nth_assign_order [OF o] have "assign_order rows ! order ?r = (rows ! order ?r)\<lparr>order := order ?r\<rparr>" .
  with e have "?r = (rows ! order ?r)\<lparr>order := order ?r\<rparr>" by (rule trans)
  with o show ?thesis by blast
qed

lemma nth_selected:
  "j < length A \<Longrightarrow> j \<in> set is \<Longrightarrow> i < length ord \<Longrightarrow>
     selected is ord A ! j ! i = A ! j ! (ord ! i)"
  by (simp add: selected_def)

lemma length_selected: "length (selected is ord A) = length A"
  by (simp add: selected_def)

lemma length_nth_selected:
  "j < length A \<Longrightarrow> j \<in> set is \<Longrightarrow> length (selected is ord A ! j) = length ord"
  by (simp add: selected_def)

lemma sort_both_Inr:
  fixes res :: "('f::linorder, 'h) results"
  assumes g: "new_grads res = (dX, dY, dPhi)"
    and l: "length dX \<le> length dY" "length dX \<le> length dPhi"
    and a: "\<forall>j < length dX. length (new_matches res) \<le> length (dX ! j)
          \<and> length (new_matches res) \<le> length (dY ! j)
          \<and> length (new_matches res) \<le> length (dPhi ! j)"
  shows "sort_both res =
     Inr (sort_table (assign_order (new_matches res)),
          (selected [0..<length dX] (map order (sort_table (assign_order (new_matches res)))) dX,
           selected [0..<length dX] (map order (sort_table (assign_order (new_matches res)))) dY,
           selected [0..<length dX] (map order (sort_table (assign_order (new_matches res)))) dPhi),
          sort_old (old_matches res))"
proof -
  let ?nm = "sort_table (assign_order (new_matches res))"
  have ord: "\<forall>k \<in> set (map order ?nm). k < length (new_matches res)"
    using assign_order_row [of _ "new_matches res"] by (auto simp: sort_table_props)
  have 1: "distinct [0..<length dX]" by simp
  have 2: "\<forall>i \<in> set [0..<length dX]. i < length dX \<and> i < length dY \<and> i < length dPhi"
    using l by simp
  have 3: "\<forall>i \<in> set [0..<length dX]. \<forall>k \<in> set (map order ?nm).
           k < length (dX ! i) \<and> k < length (dY ! i) \<and> k < length (dPhi ! i)"
  proof (intro ballI)
    fix i k assume i: "i \<in> set [0..<length dX]" and k: "k \<in> set (map order ?nm)"
    from ord k have "k < length (new_matches res)" by blast
    moreover from i a have "length (new_matches res) \<le> length (dX ! i)
          \<and> length (new_matches res) \<le> length (dY ! i)
          \<and> length (new_matches res) \<le> length (dPhi ! i)" by simp
    ultimately show "k < length (dX ! i) \<and> k < length (dY ! i) \<and> k < length (dPhi ! i)"
      by linarith
  qed
  show ?thesis
    unfolding sort_both_def Let_def g fst_conv
    by (simp only: select_gradients_Inr [OF 1 2 3] and_then_Inr)
qed

lemma ex_sort_both_three:
  "sort_both (ex_results [2, 0, 1] [1, 0]) =
     Inr ([(ex_row 0)\<lparr>order := 1\<rparr>, (ex_row 1)\<lparr>order := 2\<rparr>, (ex_row 2)\<lparr>order := 0\<rparr>],
          ([ [10, 11, 12]], [ [20, 21, 22]], [ [30, 31, 32]]),
          [ex_old_match 0, ex_old_match 1])"
  by (simp add: sort_both_def ex_results_def ex_grads_def assign_order_def sort_table_def
      sort_old_def select_def py_index_def and_then_def Let_def ex_row_def ex_old_match_def
      upt_conv_Cons)

subsection \<open>Sorting by the common key\<close>

text \<open>
  C6. Before the comparison both sets are sorted by the x residual: the new matches
  ascending by \<open>'x_resid'\<close>, the old matches ascending by \<open>x_resid\<close>, each a rearrangement
  of what it was. Where the three lists of gradient arrays are long enough for the
  selection to run through, row \<open>i\<close> of the sorted table is the row that had position
  \<open>order\<close> before the sort, and entry \<open>i\<close> of every selected gradient array is the entry
  that was at that position: gradient row \<open>i\<close> belongs to table row \<open>i\<close>.
\<close>

theorem sort_aligns_rows:
  fixes res :: "('f::linorder, 'h) results"
  assumes "new_grads res = (dX, dY, dPhi)"
    and "length dX \<le> length dY" and "length dX \<le> length dPhi"
    and "\<forall>j < length dX. length (new_matches res) \<le> length (dX ! j)
          \<and> length (new_matches res) \<le> length (dY ! j)
          \<and> length (new_matches res) \<le> length (dPhi ! j)"
  shows "\<exists>nm dX' dY' dPhi' om.
     sort_both res = Inr (nm, (dX', dY', dPhi'), om)
     \<and> mset nm = mset (assign_order (new_matches res)) \<and> sorted (map x_resid nm)
     \<and> mset om = mset (old_matches res) \<and> sorted (map old_x_resid om)
     \<and> (\<forall>i < length nm.
          order (nm ! i) < length (new_matches res)
          \<and> nm ! i = (new_matches res ! order (nm ! i))\<lparr>order := order (nm ! i)\<rparr>
          \<and> (\<forall>j < length dX.
                dX' ! j ! i = dX ! j ! order (nm ! i)
              \<and> dY' ! j ! i = dY ! j ! order (nm ! i)
              \<and> dPhi' ! j ! i = dPhi ! j ! order (nm ! i)))"
proof -
  let ?nm = "sort_table (assign_order (new_matches res))"
  let ?ord = "map order ?nm"
  have al: "\<forall>i < length ?nm.
          order (?nm ! i) < length (new_matches res)
          \<and> ?nm ! i = (new_matches res ! order (?nm ! i))\<lparr>order := order (?nm ! i)\<rparr>
          \<and> (\<forall>j < length dX.
                selected [0..<length dX] ?ord dX ! j ! i = dX ! j ! order (?nm ! i)
              \<and> selected [0..<length dX] ?ord dY ! j ! i = dY ! j ! order (?nm ! i)
              \<and> selected [0..<length dX] ?ord dPhi ! j ! i = dPhi ! j ! order (?nm ! i))"
  proof (intro allI impI conjI)
    fix i assume i: "i < length ?nm"
    from sorted_new_rows [OF i]
    show "order (?nm ! i) < length (new_matches res)"
      and "?nm ! i = (new_matches res ! order (?nm ! i))\<lparr>order := order (?nm ! i)\<rparr>"
      by simp_all
    fix j assume j: "j < length dX"
    with assms(2,3) have j': "j < length dY" "j < length dPhi" by simp_all
    from j have js: "j \<in> set [0..<length dX]" by simp
    from i have io: "i < length ?ord" by simp
    show "selected [0..<length dX] ?ord dX ! j ! i = dX ! j ! order (?nm ! i)"
      using nth_selected [OF j js io] i by simp
    show "selected [0..<length dX] ?ord dY ! j ! i = dY ! j ! order (?nm ! i)"
      using nth_selected [OF j'(1) js io] i by simp
    show "selected [0..<length dX] ?ord dPhi ! j ! i = dPhi ! j ! order (?nm ! i)"
      using nth_selected [OF j'(2) js io] i by simp
  qed
  from sort_both_Inr [OF assms] al show ?thesis
    by (intro exI conjI) (assumption, simp_all add: sort_table_props sort_old_props)
qed

theorem sort_aligns_rows_witness:
  "new_grads (ex_results [2, 0, 1] [1, 0]) = ([ [12, 10, 11]], [ [22, 20, 21]], [ [32, 30, 31]])
   \<and> sort_both (ex_results [2, 0, 1] [1, 0]) =
     Inr ([(ex_row 0)\<lparr>order := 1\<rparr>, (ex_row 1)\<lparr>order := 2\<rparr>, (ex_row 2)\<lparr>order := 0\<rparr>],
          ([ [10, 11, 12]], [ [20, 21, 22]], [ [30, 31, 32]]),
          [ex_old_match 0, ex_old_match 1])
   \<and> map x_resid [(ex_row 0)\<lparr>order := 1\<rparr>, (ex_row 1)\<lparr>order := 2\<rparr>, (ex_row 2)\<lparr>order := 0\<rparr>]
       = [0, 1, 2]"
proof -
  have g: "new_grads (ex_results [2, 0, 1] [1, 0]) =
      ([ [12, 10, 11]], [ [22, 20, 21]], [ [32, 30, 31]])"
    by (simp add: ex_results_def ex_grads_def)
  have l: "length [ [12, 10, 11 :: real]] \<le> length [ [22, 20, 21 :: real]]"
    "length [ [12, 10, 11 :: real]] \<le> length [ [32, 30, 31 :: real]]" by simp_all
  have a: "\<forall>j < length [ [12, 10, 11 :: real]].
      length (new_matches (ex_results [2, 0, 1] [1, 0])) \<le> length ([ [12, 10, 11 :: real]] ! j)
    \<and> length (new_matches (ex_results [2, 0, 1] [1, 0])) \<le> length ([ [22, 20, 21 :: real]] ! j)
    \<and> length (new_matches (ex_results [2, 0, 1] [1, 0])) \<le> length ([ [32, 30, 31 :: real]] ! j)"
    by (simp add: ex_results_def)
  from sort_aligns_rows [OF g l a] ex_sort_both_three g show ?thesis
    by (simp add: ex_row_def)
qed

subsection \<open>Facts about the comparison\<close>

lemma first_gradients_eq:
  "first_gradients (dX, dY, dPhi) =
     (if dX \<noteq> [] \<and> dY \<noteq> [] \<and> dPhi \<noteq> [] then Inr () else Inl IndexError)"
  by (auto simp: first_gradients_def py_index_def and_then_def)

lemma print_row_Inr:
  assumes "i < length nm" "dX \<noteq> []" "dY \<noteq> []" "dPhi \<noteq> []"
    "i < length (dX ! 0)" "i < length (dY ! 0)" "i < length (dPhi ! 0)"
    "i < length om" "gradients (om ! i) \<noteq> []"
  shows "print_row nm (dX, dY, dPhi) om i =
     Inr (Row (miller_index (nm ! i)) (dX ! 0 ! i) (dY ! 0 ! i) (dPhi ! 0 ! i)
            (old_miller_index (om ! i)) (gradients (om ! i) ! 0))"
  using assms by (simp add: print_row_def py_index_Inr and_then_Inr)

lemma print_row_eq_Inl: "print_row nm g om i = Inl e \<Longrightarrow> e = IndexError"
  by (cases g) (auto simp: print_row_def and_then_eq_Inl py_index_eq_Inl py_index_eq_Inr)

lemma test_gradients_eq_Inl:
  assumes "test_gradients lb nm g om = Inl e"
  shows "e = IndexError \<or> (e = AssertionError \<and> \<not> gradients_agree lb nm g om)"
proof -
  from assms have "\<exists>i \<in> set [0..<length nm].
      for_each [0..<length (fst g)] (\<lambda>j. test_gradient lb g om i j) = Inl e"
    unfolding test_gradients_def by (rule for_each_eq_Inl)
  then obtain i where i: "i < length nm"
    and f: "for_each [0..<length (fst g)] (\<lambda>j. test_gradient lb g om i j) = Inl e"
    by auto
  from for_each_eq_Inl [OF f] obtain j where j: "j < length (fst g)"
    and t: "test_gradient lb g om i j = Inl e"
    by auto
  have "\<not> agree_at lb g om i j \<Longrightarrow> \<not> gradients_agree lb nm g om"
    using i j by (force simp: gradients_agree_def list_all_iff)
  with test_gradient_eq_Inl [OF t] show ?thesis by blast
qed

lemma test_gradients_in_range:
  assumes "length dX \<le> length dY" "length dX \<le> length dPhi"
    and "\<forall>j < length dX. length nm \<le> length (dX ! j) \<and> length nm \<le> length (dY ! j)
           \<and> length nm \<le> length (dPhi ! j)"
    and "length nm \<le> length om"
    and "\<forall>i < length nm. length dX \<le> length (gradients (om ! i))"
  shows "test_gradients lb nm (dX, dY, dPhi) om =
     (if gradients_agree lb nm (dX, dY, dPhi) om then Inr () else Inl AssertionError)"
proof -
  have b: "\<forall>i < length nm. \<forall>j < length dX.
      test_gradient lb (dX, dY, dPhi) om i j =
        (if agree_at lb (dX, dY, dPhi) om i j then Inr () else Inl AssertionError)"
  proof (intro allI impI)
    fix i j assume i: "i < length nm" and j: "j < length dX"
    show "test_gradient lb (dX, dY, dPhi) om i j =
        (if agree_at lb (dX, dY, dPhi) om i j then Inr () else Inl AssertionError)"
      using assms i j by (intro test_gradient_in_range) (auto simp: less_le_trans)
  qed
  show ?thesis
  proof (cases "gradients_agree lb nm (dX, dY, dPhi) om")
    case True
    with b have "test_gradients lb nm (dX, dY, dPhi) om = Inr ()"
      by (simp add: test_gradients_def for_each_eq_Inr gradients_agree_def list_all_iff)
    with True show ?thesis by simp
  next
    case False
    with b have "test_gradients lb nm (dX, dY, dPhi) om \<noteq> Inr ()"
      by (auto simp: test_gradients_def for_each_eq_Inr gradients_agree_def list_all_iff
          split: if_splits)
    then obtain e where e: "test_gradients lb nm (dX, dY, dPhi) om = Inl e"
      by (cases "test_gradients lb nm (dX, dY, dPhi) om") auto
    then have "\<exists>i \<in> set [0..<length nm].
        for_each [0..<length (fst (dX, dY, dPhi))] (\<lambda>j. test_gradient lb (dX, dY, dPhi) om i j) = Inl e"
      unfolding test_gradients_def by (rule for_each_eq_Inl)
    then obtain i where i: "i < length nm"
      and f: "for_each [0..<length (fst (dX, dY, dPhi))] (\<lambda>j. test_gradient lb (dX, dY, dPhi) om i j) = Inl e"
      by auto
    from for_each_eq_Inl [OF f] obtain j where "j < length dX"
      "test_gradient lb (dX, dY, dPhi) om i j = Inl e"
      by auto
    with b i have "e = AssertionError" by (auto split: if_splits)
    with e False show ?thesis by simp
  qed
qed

lemma compare_in_range:
  fixes res :: "('f::linorder, 'h) results" and lb :: "('f, 'h, 'm, 'r) lib"
  assumes ok: "indices_ok res"
  shows "\<exists>rows. length rows = 10 \<and> compare lb res =
     (if gradient_checks lb res
      then Inr ([Count ''number of matches from new relfeciotn manager'' (n_new_printed res),
                 Text ''OLD CLASSES'', Text ''BUILDING OLD STYLE REFLECTION MANAGER'',
                 Text ''OLD STYLE PREDICTION AND GRAD CALC'',
                 Count ''number of matches from old relfeciotn manager''
                   (length (old_matches res))]
                @ rows @ [Text ''TESTING GRADIENTS'', Text ''OK''])
      else Inl AssertionError)"
proof -
  obtain dX dY dPhi where g: "new_grads res = (dX, dY, dPhi)"
    by (cases "new_grads res") auto
  let ?nm = "sort_table (assign_order (new_matches res))"
  let ?ord = "map order ?nm"
  let ?sX = "selected [0..<length dX] ?ord dX"
  let ?sY = "selected [0..<length dX] ?ord dY"
  let ?sP = "selected [0..<length dX] ?ord dPhi"
  let ?om = "sort_old (old_matches res)"
  from ok g have ne: "dX \<noteq> []" and l: "length dX \<le> length dY" "length dX \<le> length dPhi"
    and a: "\<forall>j < length dX. length (new_matches res) \<le> length (dX ! j)
          \<and> length (new_matches res) \<le> length (dY ! j)
          \<and> length (new_matches res) \<le> length (dPhi ! j)"
    and ten: "10 \<le> length (new_matches res)"
    and no: "length (new_matches res) \<le> length (old_matches res)"
    and gr: "\<forall>m \<in> set (old_matches res). length dX \<le> length (gradients m)"
    by (simp_all add: indices_ok_def list_all_iff)
  have sb: "sort_both res = Inr (?nm, (?sX, ?sY, ?sP), ?om)"
    by (rule sort_both_Inr [OF g l a])
  have lnm: "length ?nm = length (new_matches res)"
    by (simp add: sort_table_props length_assign_order)
  have lom: "length ?om = length (old_matches res)" by (simp add: sort_old_props)
  from ne l have ne': "dY \<noteq> []" "dPhi \<noteq> []" by auto
  have fg: "first_gradients (new_grads res) = Inr ()"
    by (simp add: g first_gradients_eq ne ne')
  have ls: "length ?sX = length dX" "length ?sY = length dY" "length ?sP = length dPhi"
    by (simp_all add: length_selected)
  have lsj: "\<forall>j < length dX. length (?sX ! j) = length ?nm \<and> length (?sY ! j) = length ?nm
      \<and> length (?sP ! j) = length ?nm"
    using l by (simp add: length_nth_selected)
  have gom: "\<forall>i < length ?om. length dX \<le> length (gradients (?om ! i))"
  proof (intro allI impI)
    fix i assume "i < length ?om"
    then have "?om ! i \<in> set ?om" by simp
    then have "?om ! i \<in> set (old_matches res)" by (simp add: sort_old_props)
    with gr show "length dX \<le> length (gradients (?om ! i))" by blast
  qed
  from ne have z: "0 < length dX" by simp
  let ?row = "\<lambda>i. Row (miller_index (?nm ! i)) (?sX ! 0 ! i) (?sY ! 0 ! i) (?sP ! 0 ! i)
            (old_miller_index (?om ! i)) (gradients (?om ! i) ! 0) :: ('f, 'h, 'm) line"
  have pr: "\<forall>i \<in> set [0..<10]. print_row ?nm (?sX, ?sY, ?sP) ?om i = Inr (?row i)"
  proof
    fix i :: nat assume "i \<in> set [0..<10]"
    then have i: "i < 10" by simp
    with ten lnm have i1: "i < length ?nm" by simp
    with no lnm lom have i2: "i < length ?om" by simp
    from lsj z i1 have i3: "i < length (?sX ! 0)" "i < length (?sY ! 0)" "i < length (?sP ! 0)"
      by simp_all
    from ls ne ne' have n3: "?sX \<noteq> []" "?sY \<noteq> []" "?sP \<noteq> []" by auto
    from gom i2 z have "gradients (?om ! i) \<noteq> []" by fastforce
    from print_row_Inr [OF i1 n3 i3 i2 this]
    show "print_row ?nm (?sX, ?sY, ?sP) ?om i = Inr (?row i)" .
  qed
  have fl: "for_lines [0..<10] (print_row ?nm (?sX, ?sY, ?sP) ?om) = Inr (map ?row [0..<10])"
    by (rule for_lines_Inr [OF pr])
  have tg: "test_gradients lb ?nm (?sX, ?sY, ?sP) ?om =
     (if gradients_agree lb ?nm (?sX, ?sY, ?sP) ?om then Inr () else Inl AssertionError)"
  proof (rule test_gradients_in_range)
    show "length ?sX \<le> length ?sY" "length ?sX \<le> length ?sP" using ls l by simp_all
    show "\<forall>j < length ?sX. length ?nm \<le> length (?sX ! j) \<and> length ?nm \<le> length (?sY ! j)
           \<and> length ?nm \<le> length (?sP ! j)"
      using lsj ls by simp
    show "length ?nm \<le> length ?om" using lnm lom no by simp
    show "\<forall>i < length ?nm. length ?sX \<le> length (gradients (?om ! i))"
      using gom lnm lom no ls by simp
  qed
  have gc: "gradient_checks lb res = gradients_agree lb ?nm (?sX, ?sY, ?sP) ?om"
    by (simp add: gradient_checks_def sb)
  have "compare lb res =
     (if gradient_checks lb res
      then Inr ([Count ''number of matches from new relfeciotn manager'' (n_new_printed res),
                 Text ''OLD CLASSES'', Text ''BUILDING OLD STYLE REFLECTION MANAGER'',
                 Text ''OLD STYLE PREDICTION AND GRAD CALC'',
                 Count ''number of matches from old relfeciotn manager''
                   (length (old_matches res))]
                @ map ?row [0..<10] @ [Text ''TESTING GRADIENTS'', Text ''OK''])
      else Inl AssertionError)"
    unfolding compare_def Let_def fg sb and_then_Inr prod.case fl tg gc
    by (simp add: and_then_Inr and_then_Inl)
  moreover have "length (map ?row [0..<10]) = 10" by simp
  ultimately show ?thesis by blast
qed

lemma sort_both_eq_Inl: "sort_both res = Inl e \<Longrightarrow> e = IndexError \<or> e = LibraryError"
  by (auto simp: sort_both_def Let_def and_then_eq_Inl dest: select_gradients_eq_Inl)

lemma first_gradients_eq_Inl: "first_gradients g = Inl e \<Longrightarrow> e = IndexError"
  by (cases g) (auto simp: first_gradients_eq split: if_splits)

lemma compare_eq_Inl:
  fixes res :: "('f::linorder, 'h) results" and lb :: "('f, 'h, 'm, 'r) lib"
  assumes "compare lb res = Inl e"
  shows "e = IndexError \<or> e = LibraryError \<or> (e = AssertionError \<and> \<not> gradient_checks lb res)"
proof (cases "first_gradients (new_grads res)")
  case (Inl e')
  with assms have "e' = e" by (simp add: compare_def Let_def and_then_Inl)
  with Inl first_gradients_eq_Inl show ?thesis by blast
next
  case (Inr u)
  show ?thesis
  proof (cases "sort_both res")
    case (Inl e')
    with assms Inr have "e' = e" by (simp add: compare_def Let_def and_then_Inl and_then_Inr)
    with Inl sort_both_eq_Inl show ?thesis by blast
  next
    case sb: (Inr t)
    obtain nm g om where t: "t = (nm, g, om)" by (cases t) auto
    show ?thesis
    proof (cases "for_lines [0..<10] (print_row nm g om :: nat \<Rightarrow> error + ('f, 'h, 'm) line)")
      case (Inl e')
      with assms Inr sb t have "e' = e"
        by (simp add: compare_def Let_def and_then_Inl and_then_Inr)
      with Inl for_lines_eq_Inl [of "[0..<10]" "print_row nm g om" e'] print_row_eq_Inl
      show ?thesis by blast
    next
      case fl: (Inr rows)
      with assms Inr sb t have "test_gradients lb nm g om = Inl e"
        by (cases "test_gradients lb nm g om")
          (simp_all add: compare_def Let_def and_then_Inl and_then_Inr)
      from test_gradients_eq_Inl [OF this] sb t show ?thesis
        by (auto simp: gradient_checks_def)
    qed
  qed
qed

subsection \<open>The instance, evaluated\<close>

lemma ex_ten_sort_both:
  "sort_both (ex_results [1, 0, 2, 3, 4, 5, 6, 7, 8, 9] [10, 0, 1, 2, 3, 4, 5, 6, 7, 8, 9]) =
     Inr (map (\<lambda>(k, p). (ex_row k)\<lparr>order := p\<rparr>)
            [(0, 1), (1, 0), (2, 2), (3, 3), (4, 4), (5, 5), (6, 6), (7, 7), (8, 8), (9, 9)],
          ex_grads [0, 1, 2, 3, 4, 5, 6, 7, 8, 9],
          map ex_old_match [0, 1, 2, 3, 4, 5, 6, 7, 8, 9, 10])"
  by (simp add: sort_both_def ex_results_def ex_grads_def assign_order_def sort_table_def
      sort_old_def select_def py_index_def and_then_def Let_def ex_row_def ex_old_match_def
      upt_conv_Cons)

lemma ex_ten_indices_ok:
  "indices_ok (ex_results [1, 0, 2, 3, 4, 5, 6, 7, 8, 9] [10, 0, 1, 2, 3, 4, 5, 6, 7, 8, 9])"
  by (simp add: indices_ok_def ex_results_def ex_grads_def ex_old_match_def)

lemma ex_ten_gradient_checks:
  "gradient_checks (ex_lib ks js)
     (ex_results [1, 0, 2, 3, 4, 5, 6, 7, 8, 9] [10, 0, 1, 2, 3, 4, 5, 6, 7, 8, 9])"
  unfolding gradient_checks_def ex_ten_sort_both
  by (simp add: gradients_agree_def agree_at_def ex_grads_def ex_lib_def ex_old_match_def
      upt_conv_Cons)

lemma ex_check_scan: "check_scan exact_ops (ex_lib ks js) = Inr ()"
  by (simp add: check_scan_def ex_lib_def exact_ops_def Let_def)

lemma ex_checks: "sweep_checks exact_ops (ex_lib ks js)" "detector_check (ex_lib ks js)"
  by (simp_all add: sweep_checks_def detector_check_def ex_lib_def exact_ops_def)

lemma ex_undo_shifts: "undo_shifts ex_saved ex_shifted = Inr ex_params"
  by (simp add: undo_shifts_def ex_saved_def ex_shifted_def ex_params_def ex_par_def
      py_index_def set_param_vals_def Let_def)

lemma ex_run_pipelines: "run_pipelines (ex_lib ks js) ps refs = ex_results ks js"
  by (simp add: run_pipelines_def new_pipeline_def alloc_def deepcopy_def in_place_def
      ex_lib_def ex_results_def Let_def)

lemma ex_script_results:
  "script_results exact_ops (ex_lib ks js) ex_params = Inr (ex_results ks js)"
  by (simp add: script_results_def ex_apply_shifts ex_undo_shifts ex_run_pipelines and_then_Inr)

lemma ex_sort_both_small:
  "sort_both (ex_results [0] [0]) =
     Inr ([ex_row 0], ([ [10]], [ [20]], [ [30]]), [ex_old_match 0])"
  by (simp add: sort_both_def ex_results_def ex_grads_def assign_order_def sort_table_def
      sort_old_def select_def py_index_def and_then_def Let_def ex_row_def)

lemma ex_sort_both_no_old:
  "sort_both (ex_results [0] []) = Inr ([ex_row 0], ([ [10]], [ [20]], [ [30]]), [])"
  by (simp add: sort_both_def ex_results_def ex_grads_def assign_order_def sort_table_def
      sort_old_def select_def py_index_def and_then_def Let_def ex_row_def)

lemma ex_compare_small: "compare (ex_lib [0] [0]) (ex_results [0] [0]) = Inl IndexError"
proof -
  let ?body = "print_row [ex_row 0] ([ [10]], [ [20]], [ [30::real]]) [ex_old_match 0]
      :: nat \<Rightarrow> error + (real, nat, real list) line"
  have e: "[0..<10] = 0 # Suc 0 # [Suc (Suc 0)..<10]" by (simp add: upt_conv_Cons)
  have b0: "\<exists>l. ?body 0 = Inr l"
    by (simp add: print_row_def py_index_def and_then_def ex_old_match_def)
  have b1: "?body (Suc 0) = Inl IndexError"
    by (simp add: print_row_def py_index_def and_then_def)
  from b0 obtain l where l: "?body 0 = Inr l" by blast
  have f: "for_lines [0..<10] ?body = Inl IndexError"
    unfolding e by (simp add: l b1 and_then_def)
  have g: "first_gradients (new_grads (ex_results [0] [0])) = Inr ()"
    by (simp add: ex_results_def ex_grads_def first_gradients_def py_index_def and_then_def)
  show ?thesis
    unfolding compare_def Let_def g ex_sort_both_small and_then_Inr prod.case f
    by (simp add: and_then_Inl)
qed

lemma ex_compare_no_old: "compare (ex_lib [0] []) (ex_results [0] []) = Inl IndexError"
proof -
  let ?body = "print_row [ex_row 0] ([ [10]], [ [20]], [ [30::real]]) []
      :: nat \<Rightarrow> error + (real, nat, real list) line"
  have e: "[0..<10] = 0 # [Suc 0..<10]" by (simp add: upt_conv_Cons)
  have b0: "?body 0 = Inl IndexError"
    by (simp add: print_row_def py_index_def and_then_def)
  have f: "for_lines [0..<10] ?body = Inl IndexError"
    unfolding e by (simp add: b0 and_then_def)
  have g: "first_gradients (new_grads (ex_results [0] [])) = Inr ()"
    by (simp add: ex_results_def ex_grads_def first_gradients_def py_index_def and_then_def)
  show ?thesis
    unfolding compare_def Let_def g ex_sort_both_no_old and_then_Inr prod.case f
    by (simp add: and_then_Inl)
qed

lemma ex_gradient_checks_small: "gradient_checks (ex_lib [0] [0]) (ex_results [0] [0])"
  unfolding gradient_checks_def ex_sort_both_small
  by (simp add: gradients_agree_def agree_at_def ex_lib_def ex_old_match_def)

subsection \<open>The counts of matches\<close>

text \<open>
  C5. The script never asserts that the new and the old reflection manager return the
  same number of matches; it only prints the two numbers. Lines 300 to 364 can fail with
  an index out of range, with a selection rejected, or with an assertion on a gradient
  comparison, and with nothing else. Where every index is in range, for which it is
  enough that there are at least as many old matches as new ones, and every gradient
  comparison holds, they print both counts, ten rows and \<open>OK\<close>, whether or not the
  counts are equal.
\<close>

theorem counts_are_only_printed:
  fixes res :: "('f::linorder, 'h) results" and lb :: "('f, 'h, 'm, 'r) lib"
  shows "(compare lb res = Inl e \<longrightarrow>
        e = IndexError \<or> e = LibraryError \<or> (e = AssertionError \<and> \<not> gradient_checks lb res))
   \<and> (indices_ok res \<and> gradient_checks lb res \<longrightarrow>
        (\<exists>rows. length rows = 10 \<and> compare lb res =
           Inr ([Count ''number of matches from new relfeciotn manager'' (n_new_printed res),
                 Text ''OLD CLASSES'', Text ''BUILDING OLD STYLE REFLECTION MANAGER'',
                 Text ''OLD STYLE PREDICTION AND GRAD CALC'',
                 Count ''number of matches from old relfeciotn manager''
                   (length (old_matches res))]
                @ rows @ [Text ''TESTING GRADIENTS'', Text ''OK''])))"
proof (intro conjI impI)
  assume "compare lb res = Inl e"
  then show "e = IndexError \<or> e = LibraryError \<or> (e = AssertionError \<and> \<not> gradient_checks lb res)"
    by (rule compare_eq_Inl)
next
  assume h: "indices_ok res \<and> gradient_checks lb res"
  then have "indices_ok res" by simp
  from compare_in_range [OF this, of lb] h
  show "\<exists>rows. length rows = 10 \<and> compare lb res =
           Inr ([Count ''number of matches from new relfeciotn manager'' (n_new_printed res),
                 Text ''OLD CLASSES'', Text ''BUILDING OLD STYLE REFLECTION MANAGER'',
                 Text ''OLD STYLE PREDICTION AND GRAD CALC'',
                 Count ''number of matches from old relfeciotn manager''
                   (length (old_matches res))]
                @ rows @ [Text ''TESTING GRADIENTS'', Text ''OK''])"
    by simp
qed

theorem counts_are_only_printed_witness:
  "compare (ex_lib [0] []) (ex_results [0] []) = Inl IndexError
   \<and> n_new_printed (ex_results [0] []) \<noteq> length (old_matches (ex_results [0] []))
   \<and> indices_ok (ex_results [1, 0, 2, 3, 4, 5, 6, 7, 8, 9] [10, 0, 1, 2, 3, 4, 5, 6, 7, 8, 9])
   \<and> gradient_checks (ex_lib [] [])
       (ex_results [1, 0, 2, 3, 4, 5, 6, 7, 8, 9] [10, 0, 1, 2, 3, 4, 5, 6, 7, 8, 9])
   \<and> (\<exists>rows. length rows = 10 \<and>
        compare (ex_lib [] [])
          (ex_results [1, 0, 2, 3, 4, 5, 6, 7, 8, 9] [10, 0, 1, 2, 3, 4, 5, 6, 7, 8, 9]) =
        Inr ([Count ''number of matches from new relfeciotn manager'' 10,
              Text ''OLD CLASSES'', Text ''BUILDING OLD STYLE REFLECTION MANAGER'',
              Text ''OLD STYLE PREDICTION AND GRAD CALC'',
              Count ''number of matches from old relfeciotn manager'' 11]
             @ rows @ [Text ''TESTING GRADIENTS'', Text ''OK'']))"
proof -
  let ?res = "ex_results [1, 0, 2, 3, 4, 5, 6, 7, 8, 9] [10, 0, 1, 2, 3, 4, 5, 6, 7, 8, 9]"
  have n: "n_new_printed (ex_results [0] []) \<noteq> length (old_matches (ex_results [0] []))"
    by (simp add: ex_results_def)
  have c: "n_new_printed ?res = 10" "length (old_matches ?res) = 11"
    by (simp_all add: ex_results_def)
  have h: "indices_ok ?res \<and> gradient_checks (ex_lib [] []) ?res"
    using ex_ten_indices_ok ex_ten_gradient_checks by blast
  from counts_are_only_printed [of "ex_lib [] []" ?res] h
  have "\<exists>rows. length rows = 10 \<and> compare (ex_lib [] []) ?res =
        Inr ([Count ''number of matches from new relfeciotn manager'' (n_new_printed ?res),
              Text ''OLD CLASSES'', Text ''BUILDING OLD STYLE REFLECTION MANAGER'',
              Text ''OLD STYLE PREDICTION AND GRAD CALC'',
              Count ''number of matches from old relfeciotn manager'' (length (old_matches ?res))]
             @ rows @ [Text ''TESTING GRADIENTS'', Text ''OK''])"
    by blast
  then have "\<exists>rows. length rows = 10 \<and> compare (ex_lib [] []) ?res =
        Inr ([Count ''number of matches from new relfeciotn manager'' 10,
              Text ''OLD CLASSES'', Text ''BUILDING OLD STYLE REFLECTION MANAGER'',
              Text ''OLD STYLE PREDICTION AND GRAD CALC'',
              Count ''number of matches from old relfeciotn manager'' 11]
             @ rows @ [Text ''TESTING GRADIENTS'', Text ''OK''])"
    unfolding c .
  with ex_compare_no_old n h show ?thesis by blast
qed

subsection \<open>Facts about the whole script\<close>

lemma check_scan_eq:
  "check_scan fp lb =
     (if sweep_checks fp lb \<and> detector_check lb then Inr () else Inl AssertionError)"
  by (auto simp: check_scan_def sweep_checks_def detector_check_def Let_def)

lemma shift_s0_eq_Inl: "shift_s0 fp vals = Inl e \<Longrightarrow> e = IndexError"
  by (auto simp: shift_s0_def py_index_def split: if_splits)

lemma apply_shifts_eq_Inl: "apply_shifts fp lb ps = Inl e \<Longrightarrow> e = IndexError"
  by (auto simp: apply_shifts_def Let_def split: sum.splits dest: shift_s0_eq_Inl)

lemma undo_shifts_eq_Inl: "undo_shifts sv ps = Inl e \<Longrightarrow> e = IndexError"
  by (auto simp: undo_shifts_def Let_def py_index_def split: sum.splits if_splits)

lemma script_results_eq_Inl: "script_results fp lb ps = Inl e \<Longrightarrow> e = IndexError"
  by (auto simp: script_results_def and_then_eq_Inl dest: apply_shifts_eq_Inl undo_shifts_eq_Inl)

text \<open>The script in terms of the values the comparison is run on.\<close>

lemma script_with_results:
  assumes "script_results fp lb ps = Inr res"
  shows "\<exists>out. script fp lb ps =
     and_then (check_scan fp lb) (\<lambda>_.
     and_then (compare lb res) (\<lambda>out'. Inr (out @ [Text ''NEW CLASSES''] @ out')))"
proof -
  from assms obtain sv ps1 ps2 where a: "apply_shifts fp lb ps = Inr (sv, ps1)"
    and u: "undo_shifts sv ps1 = Inr ps2"
    and r: "res = run_pipelines lb ps2 (obs_refs fp lb ps1)"
    by (auto simp: script_results_def and_then_eq_Inr)
  have "script fp lb ps =
     and_then (check_scan fp lb) (\<lambda>_.
     and_then (compare lb res)
       (\<lambda>out'. Inr (generate_output fp lb ps1 @ [Text ''NEW CLASSES''] @ out')))"
    by (simp add: script_def a u r and_then_Inr Let_def)
  then show ?thesis by blast
qed

lemma script_without_results:
  assumes "script_results fp lb ps = Inl e"
  shows "script fp lb ps = and_then (check_scan fp lb) (\<lambda>_. Inl e)"
proof (cases "apply_shifts fp lb ps")
  case (Inl e')
  with assms have "e' = e" by (simp add: script_results_def and_then_Inl)
  with Inl show ?thesis by (simp add: script_def and_then_Inl)
next
  case (Inr p)
  obtain sv ps1 where p: "p = (sv, ps1)" by (cases p) auto
  from assms Inr p have "undo_shifts sv ps1 = Inl e"
    by (cases "undo_shifts sv ps1") (simp_all add: script_results_def and_then_Inr and_then_Inl)
  with Inr p show ?thesis by (simp add: script_def and_then_Inr and_then_Inl Let_def)
qed

lemma script_assertion_only_if:
  fixes fp :: "'f::linorder float_ops" and lb :: "('f, 'h, 'm, 'r) lib"
  assumes "script fp lb ps = Inl AssertionError"
  shows "\<not> all_checks_hold fp lb ps"
proof (cases "sweep_checks fp lb \<and> detector_check lb")
  case False
  then show ?thesis by (auto simp: all_checks_hold_def)
next
  case True
  then have cs: "check_scan fp lb = Inr ()" by (simp add: check_scan_eq)
  show ?thesis
  proof (cases "script_results fp lb ps")
    case (Inl e)
    from script_without_results [OF Inl] cs assms have "e = AssertionError"
      by (simp add: and_then_Inr)
    with script_results_eq_Inl [OF Inl] show ?thesis by simp
  next
    case (Inr res)
    from script_with_results [OF Inr] cs assms have "compare lb res = Inl AssertionError"
      by (cases "compare lb res") (auto simp: and_then_Inr and_then_Inl)
    from compare_eq_Inl [OF this] have "\<not> gradient_checks lb res" by simp
    with Inr show ?thesis by (simp add: all_checks_hold_def)
  qed
qed

lemma script_in_range:
  fixes fp :: "'f::linorder float_ops" and lb :: "('f, 'h, 'm, 'r) lib"
  assumes r: "script_results fp lb ps = Inr res" and ok: "indices_ok res"
  shows "(all_checks_hold fp lb ps \<longrightarrow> (\<exists>out. script fp lb ps = Inr (out @ [Text ''OK''])))
     \<and> (\<not> all_checks_hold fp lb ps \<longrightarrow> script fp lb ps = Inl AssertionError)"
proof -
  from script_with_results [OF r] obtain out where s: "script fp lb ps =
     and_then (check_scan fp lb) (\<lambda>_.
     and_then (compare lb res) (\<lambda>out'. Inr (out @ [Text ''NEW CLASSES''] @ out')))"
    by blast
  from compare_in_range [OF ok, of lb] obtain rows where c: "compare lb res =
     (if gradient_checks lb res
      then Inr ([Count ''number of matches from new relfeciotn manager'' (n_new_printed res),
                 Text ''OLD CLASSES'', Text ''BUILDING OLD STYLE REFLECTION MANAGER'',
                 Text ''OLD STYLE PREDICTION AND GRAD CALC'',
                 Count ''number of matches from old relfeciotn manager''
                   (length (old_matches res))]
                @ rows @ [Text ''TESTING GRADIENTS'', Text ''OK''])
      else Inl AssertionError)"
    by blast
  have a: "all_checks_hold fp lb ps =
      (sweep_checks fp lb \<and> detector_check lb \<and> gradient_checks lb res)"
    by (simp add: all_checks_hold_def r)
  show ?thesis
  proof (intro conjI impI)
    assume h: "all_checks_hold fp lb ps"
    let ?out = "out @ [Text ''NEW CLASSES'']
       @ [Count ''number of matches from new relfeciotn manager'' (n_new_printed res),
                 Text ''OLD CLASSES'', Text ''BUILDING OLD STYLE REFLECTION MANAGER'',
                 Text ''OLD STYLE PREDICTION AND GRAD CALC'',
                 Count ''number of matches from old relfeciotn manager''
                   (length (old_matches res))]
                @ rows @ [Text ''TESTING GRADIENTS'']"
    from h a have "script fp lb ps = Inr (?out @ [Text ''OK''])"
      by (simp add: s c check_scan_eq and_then_Inr)
    then show "\<exists>out. script fp lb ps = Inr (out @ [Text ''OK''])" by blast
  next
    assume "\<not> all_checks_hold fp lb ps"
    with a show "script fp lb ps = Inl AssertionError"
      by (auto simp: s c check_scan_eq and_then_Inr and_then_Inl)
  qed
qed

subsection \<open>When the script fails\<close>

text \<open>
  C2, as amended. The script raises \<open>AssertionError\<close> only if one of the conditions it
  checks is false: the sweep range, the image width, the single detector, or a gradient
  comparison. Where the shifts and the restore run through and every index expression of
  lines 300 to 364 is in range, it raises \<open>AssertionError\<close> exactly if one of those
  conditions is false, it prints \<open>OK\<close> as its last line exactly if all of them hold, and it
  fails in no other way. A failure ends the run: no step of the script follows it.
\<close>

theorem assertion_iff_check_fails:
  fixes fp :: "'f::linorder float_ops" and lb :: "('f, 'h, 'm, 'r) lib"
  shows "(script fp lb ps = Inl AssertionError \<longrightarrow> \<not> all_checks_hold fp lb ps)
   \<and> (script_results fp lb ps = Inr res \<and> indices_ok res \<longrightarrow>
        (script fp lb ps = Inl AssertionError \<longleftrightarrow> \<not> all_checks_hold fp lb ps)
      \<and> ((\<exists>out. script fp lb ps = Inr (out @ [Text ''OK''])) \<longleftrightarrow> all_checks_hold fp lb ps)
      \<and> (\<forall>e. script fp lb ps = Inl e \<longrightarrow> e = AssertionError))"
proof (intro conjI impI)
  assume "script fp lb ps = Inl AssertionError"
  then show "\<not> all_checks_hold fp lb ps" by (rule script_assertion_only_if)
next
  assume h: "script_results fp lb ps = Inr res \<and> indices_ok res"
  then have r: "script_results fp lb ps = Inr res" and ok: "indices_ok res" by simp_all
  note s = script_in_range [OF r ok]
  show "script fp lb ps = Inl AssertionError \<longleftrightarrow> \<not> all_checks_hold fp lb ps"
    using s by auto
  show "(\<exists>out. script fp lb ps = Inr (out @ [Text ''OK''])) \<longleftrightarrow> all_checks_hold fp lb ps"
    using s by auto
  show "\<forall>e. script fp lb ps = Inl e \<longrightarrow> e = AssertionError"
    using s by auto
qed

theorem assertion_iff_check_fails_witness:
  "script exact_ops ((ex_lib [0] [0])\<lparr>n_detectors := 2\<rparr>) ex_params = Inl AssertionError
   \<and> \<not> all_checks_hold exact_ops ((ex_lib [0] [0])\<lparr>n_detectors := 2\<rparr>) ex_params
   \<and> script_results exact_ops
        (ex_lib [1, 0, 2, 3, 4, 5, 6, 7, 8, 9] [10, 0, 1, 2, 3, 4, 5, 6, 7, 8, 9]) ex_params
       = Inr (ex_results [1, 0, 2, 3, 4, 5, 6, 7, 8, 9] [10, 0, 1, 2, 3, 4, 5, 6, 7, 8, 9])
   \<and> indices_ok (ex_results [1, 0, 2, 3, 4, 5, 6, 7, 8, 9] [10, 0, 1, 2, 3, 4, 5, 6, 7, 8, 9])
   \<and> all_checks_hold exact_ops
        (ex_lib [1, 0, 2, 3, 4, 5, 6, 7, 8, 9] [10, 0, 1, 2, 3, 4, 5, 6, 7, 8, 9]) ex_params
   \<and> (\<exists>out. script exact_ops
        (ex_lib [1, 0, 2, 3, 4, 5, 6, 7, 8, 9] [10, 0, 1, 2, 3, 4, 5, 6, 7, 8, 9]) ex_params
       = Inr (out @ [Text ''OK'']))"
proof -
  let ?lb = "ex_lib [1, 0, 2, 3, 4, 5, 6, 7, 8, 9] [10, 0, 1, 2, 3, 4, 5, 6, 7, 8, 9]"
  let ?res = "ex_results [1, 0, 2, 3, 4, 5, 6, 7, 8, 9] [10, 0, 1, 2, 3, 4, 5, 6, 7, 8, 9]"
  let ?bad = "(ex_lib [0] [0])\<lparr>n_detectors := 2\<rparr>"
  have b: "script exact_ops ?bad ex_params = Inl AssertionError"
    by (simp add: script_def check_scan_def ex_lib_def exact_ops_def Let_def and_then_def)
  from assertion_iff_check_fails [of exact_ops ?bad ex_params] b
  have nb: "\<not> all_checks_hold exact_ops ?bad ex_params" by blast
  have r: "script_results exact_ops ?lb ex_params = Inr ?res" by (rule ex_script_results)
  have a: "all_checks_hold exact_ops ?lb ex_params"
    unfolding all_checks_hold_def r using ex_checks ex_ten_gradient_checks by simp
  from assertion_iff_check_fails [of exact_ops ?lb ex_params ?res] r ex_ten_indices_ok a
  have "\<exists>out. script exact_ops ?lb ex_params = Inr (out @ [Text ''OK''])" by blast
  with b nb r ex_ten_indices_ok a show ?thesis by blast
qed

text \<open>
  C2 as stated does not hold: with one new and one old match whose gradients agree,
  every checked condition is true, and the script fails with \<open>IndexError\<close> at line 349,
  which prints ten rows, before it prints \<open>OK\<close>.
\<close>

theorem passing_checks_fail_counterexample:
  "all_checks_hold exact_ops (ex_lib [0] [0]) ex_params
   \<and> script exact_ops (ex_lib [0] [0]) ex_params = Inl IndexError"
proof -
  have r: "script_results exact_ops (ex_lib [0] [0]) ex_params = Inr (ex_results [0] [0])"
    by (rule ex_script_results)
  have a: "all_checks_hold exact_ops (ex_lib [0] [0]) ex_params"
    unfolding all_checks_hold_def r using ex_checks ex_gradient_checks_small by simp
  from script_with_results [OF r] obtain out where
    "script exact_ops (ex_lib [0] [0]) ex_params =
     and_then (check_scan exact_ops (ex_lib [0] [0])) (\<lambda>_.
     and_then (compare (ex_lib [0] [0]) (ex_results [0] [0]))
       (\<lambda>out'. Inr (out @ [Text ''NEW CLASSES''] @ out')))"
    by blast
  then have "script exact_ops (ex_lib [0] [0]) ex_params = Inl IndexError"
    by (simp add: ex_check_scan ex_compare_small and_then_Inr and_then_Inl)
  with a show ?thesis by blast
qed

end
